theory Spec2Isabelle
  imports Complex_Main
begin

section \<open>Data model\<close>

text \<open>
  The tables of \<^verbatim>\<open>db/schema.ts\<close>. A row is a record, a table is the list of its rows in
  the order a \<^verbatim>\<open>select\<close> without \<^verbatim>\<open>ORDER BY\<close> returns them. Timestamps are the
  millisecond values that JavaScript compares \<^verbatim>\<open>Date\<close> objects by. Identifiers are the
  integers of a \<^verbatim>\<open>serial\<close> column. A JSON object of type
  \<^verbatim>\<open>Record<string, string>\<close> is a map from strings to strings.
\<close>

type_synonym timestamp = int

type_synonym answer_map = "string \<rightharpoonup> string"

datatype exam_status = Aktif | NonAktif

datatype user_role = Admin | Peserta

record user =
  u_id :: int
  nama :: string
  email :: string
  password :: string
  role :: user_role
  kelas :: "string option"
  u_created_at :: timestamp

record exam =
  e_id :: int
  judul_ujian :: string
  deskripsi :: string
  tanggal_mulai :: timestamp
  tanggal_selesai :: timestamp
  durasi :: int
  status :: exam_status
  e_created_at :: timestamp

record question =
  q_id :: int
  q_exam_id :: int
  soal :: string
  pilihan :: "string list"
  jawaban_benar :: string
  q_created_at :: timestamp

record answer =
  a_id :: int
  a_exam_id :: int
  a_user_id :: int
  jawaban :: answer_map
  nilai :: int
  waktu_submit :: timestamp
  is_submitted :: bool
  progress_jawaban :: "answer_map option"
  a_created_at :: timestamp

text \<open>
  The database: the four tables and, for each, the next value of the sequence behind
  its \<^verbatim>\<open>serial\<close> primary key.
\<close>

record database =
  usersTable :: "user list"
  examsTable :: "exam list"
  questionsTable :: "question list"
  answersTable :: "answer list"
  users_seq :: int
  exams_seq :: int
  questions_seq :: int
  answers_seq :: int

text \<open>
  Every \<^verbatim>\<open>throw new Error(msg)\<close> of the handlers is a value; one constructor for each
  message, and one for each error that the query builder and the database raise.
\<close>

datatype error =
    DateOrder             \<comment> \<open>\<^verbatim>\<open>Tanggal selesai harus setelah tanggal mulai\<close>\<close>
  | ExamNotFound          \<comment> \<open>\<^verbatim>\<open>Exam not found\<close>\<close>
  | UserNotFound          \<comment> \<open>\<^verbatim>\<open>User not found\<close>\<close>
  | AnswerNotFound        \<comment> \<open>\<^verbatim>\<open>Answer record not found\<close>\<close>
  | DuplicateAnswer       \<comment> \<open>\<^verbatim>\<open>Answer record already exists for this user and exam\<close>\<close>
  | ProgressAfterSubmit   \<comment> \<open>\<^verbatim>\<open>Cannot update progress for submitted exam\<close>\<close>
  | AlreadySubmitted      \<comment> \<open>\<^verbatim>\<open>Exam has already been submitted\<close>\<close>
  | QuestionNotFound int  \<comment> \<open>\<^verbatim>\<open>Question with ID ... does not exist\<close>\<close>
  | TypeError             \<comment> \<open>reading a property of \<^verbatim>\<open>undefined\<close>\<close>
  | NoValuesToSet         \<comment> \<open>\<^verbatim>\<open>No values to set\<close>, thrown by \<^verbatim>\<open>set\<close> on an object with no defined field\<close>
  | UniqueViolation       \<comment> \<open>the database's error on a second row with the same \<^verbatim>\<open>email\<close>\<close>
  | IntegerOutOfRange     \<comment> \<open>the database's error \<^verbatim>\<open>out of range for type integer\<close>\<close>
  | ForeignKeyViolation   \<comment> \<open>the database's error on deleting a row that another row references\<close>

text \<open>
  The id columns have the type \<^verbatim>\<open>integer\<close>, four bytes. An input id is a
  \<^verbatim>\<open>z.number()\<close>; a query that compares an id column with a value outside the
  column's range fails in the database with the range error.
\<close>

definition int4 :: "int \<Rightarrow> bool" where
  "int4 i \<longleftrightarrow> - (2 ^ 31) \<le> i \<and> i < 2 ^ 31"

section \<open>Exam handlers\<close>

text \<open>
  A handler takes the database and returns what it resolves to (\<open>Inr\<close>) or the error it
  throws (\<open>Inl\<close>), together with the database it leaves behind. No handler opens a
  transaction, so the statements executed before a \<^verbatim>\<open>throw\<close> stay executed. The clock
  is an argument: \<open>now\<close> for the value of \<^verbatim>\<open>new Date()\<close>, and for the column default
  \<^verbatim>\<open>defaultNow()\<close> where a handler reads only that.
\<close>

type_synonym 'a outcome = "(error + 'a) \<times> database"

record create_exam_input =
  ce_judul_ujian :: string
  ce_deskripsi :: string
  ce_tanggal_mulai :: timestamp
  ce_tanggal_selesai :: timestamp
  ce_durasi :: int
  ce_status :: exam_status

record update_exam_input =
  ue_id :: int
  ue_judul_ujian :: "string option"
  ue_deskripsi :: "string option"
  ue_tanggal_mulai :: "timestamp option"
  ue_tanggal_selesai :: "timestamp option"
  ue_durasi :: "int option"
  ue_status :: "exam_status option"

text \<open>
  \<^verbatim>\<open>a || b\<close> and \<^verbatim>\<open>if (a !== undefined) x = a\<close> on an optional field whose values are
  all truthy (a \<^verbatim>\<open>Date\<close> is an object): the field when it is there, the other value
  otherwise.
\<close>

fun or_else :: "'a option \<Rightarrow> 'a \<Rightarrow> 'a" where
  "or_else (Some v) d = v"
| "or_else None d = d"

definition createExam :: "timestamp \<Rightarrow> create_exam_input \<Rightarrow> database \<Rightarrow> exam outcome" where
  "createExam now inp db =
     (if ce_tanggal_selesai inp \<le> ce_tanggal_mulai inp then (Inl DateOrder, db)
      else
        let row = \<lparr> e_id = exams_seq db,
                    judul_ujian = ce_judul_ujian inp,
                    deskripsi = ce_deskripsi inp,
                    tanggal_mulai = ce_tanggal_mulai inp,
                    tanggal_selesai = ce_tanggal_selesai inp,
                    durasi = ce_durasi inp,
                    status = ce_status inp,
                    e_created_at = now \<rparr>
        in (Inr row, db\<lparr> examsTable := examsTable db @ [row], exams_seq := exams_seq db + 1 \<rparr>))"

definition getActiveExams :: "timestamp \<Rightarrow> database \<Rightarrow> exam list" where
  "getActiveExams now db =
     filter (\<lambda>e. status e = Aktif \<and> tanggal_mulai e \<le> now \<and> tanggal_selesai e \<ge> now)
       (examsTable db)"

text \<open>\<^verbatim>\<open>getExamById\<close>: the first row with the id (\<^verbatim>\<open>limit(1)\<close>), or \<^verbatim>\<open>null\<close>.\<close>

definition getExamById :: "int \<Rightarrow> database \<Rightarrow> exam option" where
  "getExamById i db = find (\<lambda>e. e_id e = i) (examsTable db)"

text \<open>The \<^verbatim>\<open>updateData\<close> object of \<^verbatim>\<open>updateExam\<close>, applied to a row.\<close>

definition set_exam_fields :: "update_exam_input \<Rightarrow> exam \<Rightarrow> exam" where
  "set_exam_fields inp e =
     e\<lparr> judul_ujian := or_else (ue_judul_ujian inp) (judul_ujian e),
        deskripsi := or_else (ue_deskripsi inp) (deskripsi e),
        tanggal_mulai := or_else (ue_tanggal_mulai inp) (tanggal_mulai e),
        tanggal_selesai := or_else (ue_tanggal_selesai inp) (tanggal_selesai e),
        durasi := or_else (ue_durasi inp) (durasi e),
        status := or_else (ue_status inp) (status e) \<rparr>"

text \<open>
  The \<^verbatim>\<open>update ... set ... where id = ... returning\<close> of \<^verbatim>\<open>updateExam\<close> and the check
  of its result.
\<close>

definition updateExam_write :: "update_exam_input \<Rightarrow> database \<Rightarrow> exam outcome" where
  "updateExam_write inp db =
     (if ue_judul_ujian inp = None \<and> ue_deskripsi inp = None \<and> ue_tanggal_mulai inp = None \<and>
         ue_tanggal_selesai inp = None \<and> ue_durasi inp = None \<and> ue_status inp = None
      then (Inl NoValuesToSet, db)
      else
      let db' = db\<lparr> examsTable :=
                  map (\<lambda>e. if e_id e = ue_id inp then set_exam_fields inp e else e) (examsTable db) \<rparr>
      in case filter (\<lambda>e. e_id e = ue_id inp) (examsTable db') of
           [] \<Rightarrow> (Inl ExamNotFound, db')
         | r # _ \<Rightarrow> (Inr r, db'))"

definition updateExam :: "update_exam_input \<Rightarrow> database \<Rightarrow> exam outcome" where
  "updateExam inp db =
     (let has_start = (ue_tanggal_mulai inp \<noteq> None);
          has_end = (ue_tanggal_selesai inp \<noteq> None)
      in if has_start \<and> has_end \<and> the (ue_tanggal_selesai inp) \<le> the (ue_tanggal_mulai inp)
         then (Inl DateOrder, db)
         else if (has_start \<or> has_end) \<and> \<not> (has_start \<and> has_end) then
           (case getExamById (ue_id inp) db of
              None \<Rightarrow> (Inl ExamNotFound, db)
            | Some existingExam \<Rightarrow>
                let newStart = or_else (ue_tanggal_mulai inp) (tanggal_mulai existingExam);
                    newEnd = or_else (ue_tanggal_selesai inp) (tanggal_selesai existingExam)
                in if newEnd \<le> newStart then (Inl DateOrder, db)
                   else updateExam_write inp db)
         else updateExam_write inp db)"

text \<open>
  The three \<^verbatim>\<open>delete\<close> statements of \<^verbatim>\<open>deleteExam\<close>, and what the database does with
  each. A statement fails on an id outside the column's range. The database enforces the
  foreign keys: the delete of an exam row fails while a question or an answer still
  references it; no row references a question or an answer. A statement returns rows
  only with a \<^verbatim>\<open>returning\<close> clause, which the delete of the exam row has.
\<close>

datatype statement =
    DeleteAnswersOfExam int
  | DeleteQuestionsOfExam int
  | DeleteExamRow int

definition exam_referenced :: "int \<Rightarrow> database \<Rightarrow> bool" where
  "exam_referenced i db \<longleftrightarrow>
     list_ex (\<lambda>q. q_exam_id q = i) (questionsTable db) \<or>
     list_ex (\<lambda>a. a_exam_id a = i) (answersTable db)"

fun execute :: "statement \<Rightarrow> database \<Rightarrow> (exam list) outcome" where
  "execute (DeleteAnswersOfExam i) db =
     (if \<not> int4 i then (Inl IntegerOutOfRange, db)
      else (Inr [], db\<lparr> answersTable := filter (\<lambda>a. a_exam_id a \<noteq> i) (answersTable db) \<rparr>))"
| "execute (DeleteQuestionsOfExam i) db =
     (if \<not> int4 i then (Inl IntegerOutOfRange, db)
      else (Inr [], db\<lparr> questionsTable := filter (\<lambda>q. q_exam_id q \<noteq> i) (questionsTable db) \<rparr>))"
| "execute (DeleteExamRow i) db =
     (if \<not> int4 i then (Inl IntegerOutOfRange, db)
      else
        let result = filter (\<lambda>e. e_id e = i) (examsTable db)
        in if result \<noteq> [] \<and> exam_referenced i db then (Inl ForeignKeyViolation, db)
           else (Inr result, db\<lparr> examsTable := filter (\<lambda>e. e_id e \<noteq> i) (examsTable db) \<rparr>))"

text \<open>
  Statements awaited one after the other: the outcome of the last statement run, which is
  the first one that fails when one fails, and the database after each statement that
  succeeded, in the order they ran.
\<close>

fun run :: "statement list \<Rightarrow> database \<Rightarrow> (exam list) outcome \<times> database list" where
  "run [] db = ((Inr [], db), [])"
| "run (st # rest) db =
     (case execute st db of
        (Inl e, db') \<Rightarrow> ((Inl e, db'), [])
      | (Inr rows, db') \<Rightarrow>
          if rest = [] then ((Inr rows, db'), [db'])
          else case run rest db' of (out, states) \<Rightarrow> (out, db' # states))"

text \<open>
  \<^verbatim>\<open>deleteExam\<close>: the answers of the exam, then its questions, then the exam row, and the
  check of what the last statement returned.
\<close>

definition deleteExam_statements :: "int \<Rightarrow> statement list" where
  "deleteExam_statements i = [DeleteAnswersOfExam i, DeleteQuestionsOfExam i, DeleteExamRow i]"

definition deleteExam :: "int \<Rightarrow> database \<Rightarrow> unit outcome" where
  "deleteExam i db =
     (case fst (run (deleteExam_statements i) db) of
        (Inl e, db') \<Rightarrow> (Inl e, db')
      | (Inr result, db') \<Rightarrow>
          if result = [] then (Inl ExamNotFound, db') else (Inr (), db'))"

text \<open>
  The foreign keys of the schema: \<^verbatim>\<open>questions.exam_id\<close> and \<^verbatim>\<open>answers.exam_id\<close>
  reference \<^verbatim>\<open>exams.id\<close>, \<^verbatim>\<open>answers.user_id\<close> references \<^verbatim>\<open>users.id\<close>.
\<close>

definition foreign_keys_ok :: "database \<Rightarrow> bool" where
  "foreign_keys_ok db \<longleftrightarrow>
     list_all (\<lambda>q. q_exam_id q \<in> set (map e_id (examsTable db))) (questionsTable db) \<and>
     list_all (\<lambda>a. a_exam_id a \<in> set (map e_id (examsTable db))) (answersTable db) \<and>
     list_all (\<lambda>a. a_user_id a \<in> set (map u_id (usersTable db))) (answersTable db)"

section \<open>Question handlers\<close>

text \<open>
  \<^verbatim>\<open>Number.prototype.toString\<close> on an integer: its decimal digits, after a minus sign when
  it is negative.
\<close>

definition digit_char :: "nat \<Rightarrow> char" where
  "digit_char d = ''0123456789'' ! d"

fun digits :: "nat \<Rightarrow> string" where
  "digits n = (if n < 10 then [digit_char n] else digits (n div 10) @ [digit_char (n mod 10)])"

declare digits.simps [simp del]

definition toString :: "int \<Rightarrow> string" where
  "toString i = (if i < 0 then CHR ''-'' # digits (nat (- i)) else digits (nat i))"

text \<open>
  The truth value JavaScript gives to \<^verbatim>\<open>obj[key]\<close> when the values of \<^verbatim>\<open>obj\<close> are
  strings: \<^verbatim>\<open>undefined\<close> (no such key) and the empty string are falsy, every other
  string is truthy.
\<close>

fun truthy :: "string option \<Rightarrow> bool" where
  "truthy None = False"
| "truthy (Some s) = (s \<noteq> [])"

definition getQuestionById :: "int \<Rightarrow> database \<Rightarrow> question option" where
  "getQuestionById i db = find (\<lambda>q. q_id q = i) (questionsTable db)"

text \<open>
  \<^verbatim>\<open>if (obj && obj[key]) delete obj[key]\<close> of \<^verbatim>\<open>deleteQuestion\<close>, for the answer map
  (never \<^verbatim>\<open>null\<close>) and for the progress map (\<^verbatim>\<open>null\<close> until the first autosave).
\<close>

definition remove_reference :: "string \<Rightarrow> answer_map \<Rightarrow> answer_map" where
  "remove_reference k m = (if truthy (m k) then m(k := None) else m)"

definition remove_reference_opt :: "string \<Rightarrow> answer_map option \<Rightarrow> answer_map option" where
  "remove_reference_opt k p = (case p of None \<Rightarrow> None | Some m \<Rightarrow> Some (remove_reference k m))"

text \<open>
  The body of the loop of \<^verbatim>\<open>deleteQuestion\<close> for one selected answer: the two maps of the
  selected row, pruned, are written to every row with its id.
\<close>

definition cleanup_answer :: "int \<Rightarrow> answer \<Rightarrow> database \<Rightarrow> database" where
  "cleanup_answer i answer db =
     (let jawaban' = remove_reference (toString i) (jawaban answer);
          progressJawaban' = remove_reference_opt (toString i) (progress_jawaban answer)
      in db\<lparr> answersTable :=
              map (\<lambda>a. if a_id a = a_id answer
                        then a\<lparr> jawaban := jawaban', progress_jawaban := progressJawaban' \<rparr>
                        else a)
                (answersTable db) \<rparr>)"

fun cleanup_answers :: "int \<Rightarrow> answer list \<Rightarrow> database \<Rightarrow> database" where
  "cleanup_answers i [] db = db"
| "cleanup_answers i (answer # rest) db = cleanup_answers i rest (cleanup_answer i answer db)"

definition deleteQuestion :: "int \<Rightarrow> database \<Rightarrow> unit outcome" where
  "deleteQuestion i db =
     (case getQuestionById i db of
        None \<Rightarrow> (Inl (QuestionNotFound i), db)
      | Some existingQuestion \<Rightarrow>
          let answers = filter (\<lambda>a. a_exam_id a = q_exam_id existingQuestion) (answersTable db);
              db1 = cleanup_answers i answers db
          in (Inr (), db1\<lparr> questionsTable := filter (\<lambda>q. q_id q \<noteq> i) (questionsTable db1) \<rparr>))"

text \<open>
  \<^verbatim>\<open>getQuestionsForParticipant\<close> selects five columns; the rows it returns have no
  \<^verbatim>\<open>jawaban_benar\<close> field.
\<close>

record participant_question =
  pq_id :: int
  pq_exam_id :: int
  pq_soal :: string
  pq_pilihan :: "string list"
  pq_created_at :: timestamp

definition getQuestionsForParticipant :: "int \<Rightarrow> database \<Rightarrow> participant_question list" where
  "getQuestionsForParticipant examId db =
     map (\<lambda>q. \<lparr> pq_id = q_id q, pq_exam_id = q_exam_id q, pq_soal = soal q,
                pq_pilihan = pilihan q, pq_created_at = q_created_at q \<rparr>)
       (filter (\<lambda>q. q_exam_id q = examId) (questionsTable db))"

text \<open>An answer row with the references to question \<open>i\<close> removed as the loop removes them.\<close>

definition without_reference :: "int \<Rightarrow> answer \<Rightarrow> answer" where
  "without_reference i a =
     a\<lparr> jawaban := remove_reference (toString i) (jawaban a),
        progress_jawaban := remove_reference_opt (toString i) (progress_jawaban a) \<rparr>"

section \<open>The arithmetic of the score\<close>

text \<open>
  A JavaScript \<^verbatim>\<open>Number\<close> is an IEEE 754 double. The score is computed from two
  non-negative integers by one division, one multiplication and \<^verbatim>\<open>Math.round\<close>, so only
  non-negative finite doubles occur: the pair \<open>(m, e)\<close> stands for \<open>m * 2 ^ e\<close>.
\<close>

type_synonym double = "nat \<times> int"

definition double_value :: "double \<Rightarrow> real" where
  "double_value d = real (fst d) * 2 powr real_of_int (snd d)"

text \<open>The integer nearest to \<open>p / q\<close>, the even one of two that are equally near.\<close>

definition round_ties_even :: "nat \<Rightarrow> nat \<Rightarrow> nat" where
  "round_ties_even p q =
     (let f = p div q; r = p mod q
      in if 2 * r < q then f
         else if q < 2 * r then f + 1
         else if even f then f else f + 1)"

text \<open>
  Scaling \<open>p / q\<close> by powers of two into \<open>[2 ^ 52, 2 ^ 53)\<close>: the result \<open>(p', q', e)\<close> has
  \<open>p' / q' * 2 ^ e = p / q\<close>.
\<close>

function normalise :: "nat \<Rightarrow> nat \<Rightarrow> int \<Rightarrow> nat \<times> nat \<times> int" where
  "normalise p q e =
     (if p = 0 \<or> q = 0 then (p, q, e)
      else if p < 2 ^ 52 * q then normalise (2 * p) q (e - 1)
      else if 2 ^ 53 * q \<le> p then normalise p (2 * q) (e + 1)
      else (p, q, e))"
  by pat_completeness auto
termination
  by (relation "measure (\<lambda>(p, q, e). (2 ^ 52 * q - p) + (p + 1 - 2 ^ 53 * q))") auto

declare normalise.simps [simp del]

text \<open>
  The double nearest to the rational \<open>p / q\<close> (53 significant bits, round to nearest, ties
  to even), for a quotient in the range of the normal doubles.
\<close>

definition to_double :: "nat \<Rightarrow> nat \<Rightarrow> double" where
  "to_double p q =
     (if p = 0 then (0, 0)
      else case normalise p q 0 of (p', q', e) \<Rightarrow> (round_ties_even p' q', e))"

text \<open>\<^verbatim>\<open>a / b\<close> for two integers below \<open>2 ^ 53\<close>, \<open>b\<close> not zero.\<close>

definition js_divide :: "nat \<Rightarrow> nat \<Rightarrow> double" where
  "js_divide a b = to_double a b"

text \<open>\<^verbatim>\<open>x * k\<close> for a double \<open>x\<close> and an integer \<open>k\<close> below \<open>2 ^ 53\<close>.\<close>

definition js_times :: "double \<Rightarrow> nat \<Rightarrow> double" where
  "js_times x k =
     (case x of (m, e) \<Rightarrow>
        if 0 \<le> e then to_double (m * k * 2 ^ nat e) 1
        else to_double (m * k) (2 ^ nat (- e)))"

text \<open>\<^verbatim>\<open>Math.round(x)\<close>: the integer \<open>\<lfloor>x + 1/2\<rfloor>\<close>.\<close>

definition Math_round :: "double \<Rightarrow> int" where
  "Math_round x =
     (case x of (m, e) \<Rightarrow>
        if 0 \<le> e then int (m * 2 ^ nat e)
        else int ((2 * m + 2 ^ nat (- e)) div (2 * 2 ^ nat (- e))))"

section \<open>Answer handlers\<close>

record create_answer_input =
  ca_exam_id :: int
  ca_user_id :: int
  ca_jawaban :: answer_map
  ca_is_submitted :: bool
  ca_progress_jawaban :: "answer_map option"

record update_progress_input =
  up_id :: int
  up_progress_jawaban :: answer_map

record submit_exam_input =
  se_id :: int
  se_jawaban :: answer_map

text \<open>
  \<^verbatim>\<open>createAnswer\<close>. \<open>now\<close> is the value of \<^verbatim>\<open>new Date()\<close>, \<open>db_now\<close> the value of the
  column default \<^verbatim>\<open>defaultNow()\<close>. The input's \<^verbatim>\<open>is_submitted\<close> is a boolean (the schema
  defaults it to \<^verbatim>\<open>false\<close>), so \<^verbatim>\<open>input.is_submitted || false\<close> is the input's value; an
  object is truthy, so \<^verbatim>\<open>input.progress_jawaban || null\<close> is the input's map, or
  \<^verbatim>\<open>null\<close>. The first \<^verbatim>\<open>select\<close> compares both input ids with id columns, so it fails
  on an id outside the columns' range.
\<close>

definition createAnswer ::
  "timestamp \<Rightarrow> timestamp \<Rightarrow> create_answer_input \<Rightarrow> database \<Rightarrow> answer outcome" where
  "createAnswer now db_now inp db =
     (if \<not> int4 (ca_user_id inp) \<or> \<not> int4 (ca_exam_id inp)
      then (Inl IntegerOutOfRange, db)
      else if filter (\<lambda>a. a_user_id a = ca_user_id inp \<and> a_exam_id a = ca_exam_id inp) (answersTable db) \<noteq> []
      then (Inl DuplicateAnswer, db)
      else if filter (\<lambda>u. u_id u = ca_user_id inp) (usersTable db) = []
      then (Inl UserNotFound, db)
      else if filter (\<lambda>e. e_id e = ca_exam_id inp) (examsTable db) = []
      then (Inl ExamNotFound, db)
      else
        let row = \<lparr> a_id = answers_seq db,
                    a_exam_id = ca_exam_id inp,
                    a_user_id = ca_user_id inp,
                    jawaban = ca_jawaban inp,
                    nilai = 0,
                    waktu_submit = now,
                    is_submitted = ca_is_submitted inp,
                    progress_jawaban = ca_progress_jawaban inp,
                    a_created_at = db_now \<rparr>
        in (Inr row, db\<lparr> answersTable := answersTable db @ [row], answers_seq := answers_seq db + 1 \<rparr>))"

definition getUserAnswer :: "int \<Rightarrow> int \<Rightarrow> database \<Rightarrow> answer option" where
  "getUserAnswer examId userId db =
     find (\<lambda>a. a_user_id a = userId \<and> a_exam_id a = examId) (answersTable db)"

text \<open>
  The rows an \<^verbatim>\<open>update ... where id = ... returning\<close> gives back, and the first of them;
  reading a field of \<^verbatim>\<open>result[0]\<close> when there is none is a \<^verbatim>\<open>TypeError\<close>.
\<close>

definition first_returned :: "int \<Rightarrow> database \<Rightarrow> answer outcome" where
  "first_returned i db =
     (case filter (\<lambda>a. a_id a = i) (answersTable db) of
        [] \<Rightarrow> (Inl TypeError, db)
      | answer # _ \<Rightarrow> (Inr answer, db))"

definition updateProgress :: "update_progress_input \<Rightarrow> database \<Rightarrow> answer outcome" where
  "updateProgress inp db =
     (case filter (\<lambda>a. a_id a = up_id inp) (answersTable db) of
        [] \<Rightarrow> (Inl AnswerNotFound, db)
      | existingAnswer # _ \<Rightarrow>
          if is_submitted existingAnswer then (Inl ProgressAfterSubmit, db)
          else first_returned (up_id inp)
                 (db\<lparr> answersTable :=
                       map (\<lambda>a. if a_id a = up_id inp
                                 then a\<lparr> progress_jawaban := Some (up_progress_jawaban inp) \<rparr>
                                 else a)
                         (answersTable db) \<rparr>))"

text \<open>The loop of \<^verbatim>\<open>calculateScore\<close>, with its counter.\<close>

fun count_correct :: "answer_map \<Rightarrow> question list \<Rightarrow> nat \<Rightarrow> nat" where
  "count_correct userAnswers [] correctAnswers = correctAnswers"
| "count_correct userAnswers (question # rest) correctAnswers =
     (let userAnswer = userAnswers (toString (q_id question))
      in count_correct userAnswers rest
           (if truthy userAnswer \<and> userAnswer = Some (jawaban_benar question)
            then correctAnswers + 1 else correctAnswers))"

definition calculateScore :: "int \<Rightarrow> answer_map \<Rightarrow> database \<Rightarrow> int" where
  "calculateScore examId userAnswers db =
     (let questions = filter (\<lambda>q. q_exam_id q = examId) (questionsTable db)
      in if length questions = 0 then 0
         else Math_round
                (js_times (js_divide (count_correct userAnswers questions 0) (length questions)) 100))"

definition submitExam :: "timestamp \<Rightarrow> submit_exam_input \<Rightarrow> database \<Rightarrow> answer outcome" where
  "submitExam now inp db =
     (case filter (\<lambda>a. a_id a = se_id inp) (answersTable db) of
        [] \<Rightarrow> (Inl AnswerNotFound, db)
      | existingAnswer # _ \<Rightarrow>
          if is_submitted existingAnswer then (Inl AlreadySubmitted, db)
          else
            let score = calculateScore (a_exam_id existingAnswer) (se_jawaban inp) db
            in first_returned (se_id inp)
                 (db\<lparr> answersTable :=
                       map (\<lambda>a. if a_id a = se_id inp
                                 then a\<lparr> jawaban := se_jawaban inp, nilai := score,
                                         is_submitted := True, waktu_submit := now \<rparr>
                                 else a)
                         (answersTable db) \<rparr>))"

section \<open>User and authentication handlers\<close>

text \<open>
  \<^verbatim>\<open>Buffer.from(password).toString('base64')\<close>, the \<^verbatim>\<open>hashPassword\<close> of the user
  handlers. A string is the sequence of the bytes of its UTF-8 encoding, which is what
  \<^verbatim>\<open>Buffer.from\<close> makes of it. Three bytes give four characters of the alphabet; one or
  two bytes left over are padded with \<^verbatim>\<open>=\<close>.
\<close>

definition base64_alphabet :: string where
  "base64_alphabet = ''ABCDEFGHIJKLMNOPQRSTUVWXYZabcdefghijklmnopqrstuvwxyz0123456789+/''"

definition base64_char :: "nat \<Rightarrow> char" where
  "base64_char n = base64_alphabet ! n"

fun base64 :: "nat list \<Rightarrow> string" where
  "base64 [] = []"
| "base64 [a] = [base64_char (a div 4), base64_char (a mod 4 * 16), CHR ''='', CHR ''='']"
| "base64 [a, b] =
     [base64_char (a div 4), base64_char (a mod 4 * 16 + b div 16),
      base64_char (b mod 16 * 4), CHR ''='']"
| "base64 (a # b # c # rest) =
     [base64_char (a div 4), base64_char (a mod 4 * 16 + b div 16),
      base64_char (b mod 16 * 4 + c div 64), base64_char (c mod 64)] @ base64 rest"

definition users_hashPassword :: "string \<Rightarrow> string" where
  "users_hashPassword plain = base64 (map of_char plain)"

record create_user_input =
  cu_nama :: string
  cu_email :: string
  cu_password :: string
  cu_role :: user_role
  cu_kelas :: "string option"

text \<open>
  \<^verbatim>\<open>createUser\<close>. The column \<^verbatim>\<open>email\<close> is unique: the insert of a second row with the same
  email fails in the database, after the sequence has given out its next value.
  \<^verbatim>\<open>input.kelas || null\<close> is \<^verbatim>\<open>null\<close> for a missing, a \<^verbatim>\<open>null\<close> and an empty class.
\<close>

definition createUser :: "timestamp \<Rightarrow> create_user_input \<Rightarrow> database \<Rightarrow> user outcome" where
  "createUser db_now inp db =
     (let hashedPassword = users_hashPassword (cu_password inp);
          row = \<lparr> u_id = users_seq db,
                  nama = cu_nama inp,
                  email = cu_email inp,
                  password = hashedPassword,
                  role = cu_role inp,
                  kelas = (case cu_kelas inp of
                             None \<Rightarrow> None
                           | Some k \<Rightarrow> if k = [] then None else Some k),
                  u_created_at = db_now \<rparr>
      in if filter (\<lambda>u. email u = cu_email inp) (usersTable db) \<noteq> []
         then (Inl UniqueViolation, db\<lparr> users_seq := users_seq db + 1 \<rparr>)
         else (Inr row, db\<lparr> usersTable := usersTable db @ [row], users_seq := users_seq db + 1 \<rparr>))"

text \<open>\<^verbatim>\<open>String.prototype.split\<close> with a separator of one character.\<close>

fun split :: "char \<Rightarrow> string \<Rightarrow> string list" where
  "split c [] = [[]]"
| "split c (x # xs) =
     (if x = c then [] # split c xs
      else case split c xs of
             [] \<Rightarrow> [[x]]
           | part # parts \<Rightarrow> (x # part) # parts)"

text \<open>
  \<^verbatim>\<open>verifyPassword\<close> of the authentication handlers. The key derivation
  \<^verbatim>\<open>pbkdf2Sync(password, salt, 10000, 64, 'sha512').toString('hex')\<close> belongs to the
  runtime; it is the parameter \<open>pbkdf2\<close>, a function of the password and the salt.
\<close>

definition verifyPassword :: "(string \<Rightarrow> string \<Rightarrow> string) \<Rightarrow> string \<Rightarrow> string \<Rightarrow> bool" where
  "verifyPassword pbkdf2 plain hashedPassword =
     (case split CHR '':'' hashedPassword of
        [salt, storedHash] \<Rightarrow> pbkdf2 plain salt = storedHash
      | _ \<Rightarrow> False)"

record login_input =
  li_email :: string
  li_password :: string

definition loginUser :: "(string \<Rightarrow> string \<Rightarrow> string) \<Rightarrow> login_input \<Rightarrow> database \<Rightarrow> user option" where
  "loginUser pbkdf2 inp db =
     (case filter (\<lambda>u. email u = li_email inp) (usersTable db) of
        [] \<Rightarrow> None
      | user # _ \<Rightarrow>
          if verifyPassword pbkdf2 (li_password inp) (password user) then Some user else None)"

section \<open>Runs of calls\<close>

text \<open>
  A sequence of \<^verbatim>\<open>createAnswer\<close> calls, each with its clock values and its input; a call
  that throws leaves the database it leaves, and the next call runs.
\<close>

fun create_calls :: "(timestamp \<times> timestamp \<times> create_answer_input) list \<Rightarrow> database \<Rightarrow> database" where
  "create_calls [] db = db"
| "create_calls ((now, db_now, inp) # rest) db =
     create_calls rest (snd (createAnswer now db_now inp db))"

text \<open>At most one answer row for each pair of an exam and a user.\<close>

definition one_answer_per_pair :: "database \<Rightarrow> bool" where
  "one_answer_per_pair db = distinct (map (\<lambda>a. (a_exam_id a, a_user_id a)) (answersTable db))"

section \<open>The score in the words of the specification\<close>

text \<open>
  The specification's score, to be compared with \<^verbatim>\<open>calculateScore\<close>: the number of the
  exam's questions whose correct choice is equal to the value stored in the answer map
  under the question's id as a string, divided by the number of the exam's questions,
  times 100, rounded half up in exact arithmetic, and 0 for an exam without questions.
\<close>

definition spec_totalQuestions :: "int \<Rightarrow> database \<Rightarrow> nat" where
  "spec_totalQuestions examId db = length (filter (\<lambda>q. q_exam_id q = examId) (questionsTable db))"

definition spec_correctCount :: "int \<Rightarrow> answer_map \<Rightarrow> database \<Rightarrow> nat" where
  "spec_correctCount examId answerMap db =
     length (filter (\<lambda>q. answerMap (toString (q_id q)) = Some (jawaban_benar q))
               (filter (\<lambda>q. q_exam_id q = examId) (questionsTable db)))"

definition spec_round_half_up :: "nat \<Rightarrow> nat \<Rightarrow> int" where
  "spec_round_half_up p q = \<lfloor>real p / real q + 1 / 2\<rfloor>"

definition spec_score :: "int \<Rightarrow> answer_map \<Rightarrow> database \<Rightarrow> int" where
  "spec_score examId answerMap db =
     (if spec_totalQuestions examId db = 0 then 0
      else spec_round_half_up (100 * spec_correctCount examId answerMap db)
             (spec_totalQuestions examId db))"

section \<open>Example data\<close>

definition exam1 :: exam where
  "exam1 = \<lparr> e_id = 1, judul_ujian = ''Test Exam'', deskripsi = ''A test'',
             tanggal_mulai = 1000, tanggal_selesai = 2000, durasi = 120,
             status = Aktif, e_created_at = 0 \<rparr>"

definition user1 :: user where
  "user1 = \<lparr> u_id = 1, nama = ''Test User'', email = ''test@example.com'',
             password = ''x'', role = Peserta, kelas = Some ''12A'', u_created_at = 0 \<rparr>"

definition question1 :: question where
  "question1 = \<lparr> q_id = 1, q_exam_id = 1, soal = ''What is 2 + 2?'',
                 pilihan = [''1'', ''2'', ''3'', ''4''], jawaban_benar = ''D'',
                 q_created_at = 0 \<rparr>"

definition answer1 :: answer where
  "answer1 = \<lparr> a_id = 1, a_exam_id = 1, a_user_id = 1, jawaban = [''1'' \<mapsto> ''A''],
               nilai = 0, waktu_submit = 0, is_submitted = False,
               progress_jawaban = None, a_created_at = 0 \<rparr>"

definition db_empty :: database where
  "db_empty = \<lparr> usersTable = [], examsTable = [], questionsTable = [], answersTable = [],
                users_seq = 1, exams_seq = 1, questions_seq = 1, answers_seq = 1 \<rparr>"

definition db_one :: database where
  "db_one = \<lparr> usersTable = [user1], examsTable = [exam1], questionsTable = [question1],
              answersTable = [answer1],
              users_seq = 2, exams_seq = 2, questions_seq = 2, answers_seq = 2 \<rparr>"


definition create_same_instant :: create_exam_input where
  "create_same_instant = \<lparr> ce_judul_ujian = ''Test Exam'', ce_deskripsi = ''A test'',
      ce_tanggal_mulai = 1000, ce_tanggal_selesai = 1000, ce_durasi = 120, ce_status = Aktif \<rparr>"

definition create_valid :: create_exam_input where
  "create_valid = \<lparr> ce_judul_ujian = ''Test Exam'', ce_deskripsi = ''A test'',
      ce_tanggal_mulai = 1000, ce_tanggal_selesai = 2000, ce_durasi = 120, ce_status = Aktif \<rparr>"

definition update_start_only :: "timestamp \<Rightarrow> update_exam_input" where
  "update_start_only t = \<lparr> ue_id = 1, ue_judul_ujian = None, ue_deskripsi = None,
      ue_tanggal_mulai = Some t, ue_tanggal_selesai = None, ue_durasi = None, ue_status = None \<rparr>"


definition submit1 :: submit_exam_input where
  "submit1 = \<lparr> se_id = 1, se_jawaban = [''1'' \<mapsto> ''D''] \<rparr>"

definition db_submitted :: database where
  "db_submitted = db_one\<lparr> answersTable := [answer1\<lparr>is_submitted := True\<rparr>] \<rparr>"

definition fst_answer :: "answer outcome \<Rightarrow> answer" where
  "fst_answer r = (case fst r of Inr a \<Rightarrow> a | Inl _ \<Rightarrow> answer1)"

definition create_unknown :: create_answer_input where
  "create_unknown = \<lparr> ca_exam_id = 99, ca_user_id = 99, ca_jawaban = Map.empty,
      ca_is_submitted = False, ca_progress_jawaban = None \<rparr>"

definition create_first :: create_answer_input where
  "create_first = \<lparr> ca_exam_id = 1, ca_user_id = 1, ca_jawaban = Map.empty,
      ca_is_submitted = False, ca_progress_jawaban = None \<rparr>"

definition db_no_answers :: database where
  "db_no_answers = db_one\<lparr> answersTable := [] \<rparr>"

definition answer_blank :: answer where
  "answer_blank = answer1\<lparr> jawaban := [''1'' \<mapsto> [], ''2'' \<mapsto> ''B''],
      progress_jawaban := Some [''1'' \<mapsto> []] \<rparr>"

definition db_blank :: database where
  "db_blank = db_one\<lparr> answersTable := [answer_blank] \<rparr>"

definition answer_filled :: answer where
  "answer_filled = answer1\<lparr> jawaban := [''1'' \<mapsto> ''D'', ''2'' \<mapsto> ''B''],
      progress_jawaban := Some [''1'' \<mapsto> ''D''] \<rparr>"

definition db_filled :: database where
  "db_filled = db_one\<lparr> answersTable := [answer_filled] \<rparr>"

definition stored_answer :: "string \<Rightarrow> answer \<Rightarrow> string option" where
  "stored_answer k a = jawaban a k"

definition stored_progress :: "string \<Rightarrow> answer \<Rightarrow> string option" where
  "stored_progress k a = (case progress_jawaban a of None \<Rightarrow> None | Some m \<Rightarrow> m k)"

definition new_user :: create_user_input where
  "new_user = \<lparr> cu_nama = ''Peserta User'', cu_email = ''peserta@test.com'',
      cu_password = ''password123'', cu_role = Peserta, cu_kelas = Some ''XII IPA 1'' \<rparr>"

definition db_other_key :: database where
  "db_other_key = db_one\<lparr> questionsTable := [question1\<lparr> jawaban_benar := ''A'' \<rparr>] \<rparr>"

definition new_user_row :: user where
  "new_user_row = \<lparr> u_id = 2, nama = ''Peserta User'', email = ''peserta@test.com'',
      password = ''cGFzc3dvcmQxMjM='', role = Peserta, kelas = Some ''XII IPA 1'',
      u_created_at = 7 \<rparr>"

definition kdf_example :: "string \<Rightarrow> string \<Rightarrow> string" where
  "kdf_example plain salt = salt @ plain"

text \<open>An exam with forty questions, and an answer map with the first 23 of them right.\<close>

definition forty_questions :: "question list" where
  "forty_questions =
     map (\<lambda>i. \<lparr> q_id = i, q_exam_id = 1, soal = ''Which one?'',
                pilihan = [''1'', ''2'', ''3'', ''4''], jawaban_benar = ''A'',
                q_created_at = 0 \<rparr>) [1..40]"

definition db_forty :: database where
  "db_forty = db_one\<lparr> questionsTable := forty_questions \<rparr>"

definition answers_23 :: answer_map where
  "answers_23 = map_of (map (\<lambda>i. (toString i, ''A'')) [1..23])"

definition first_row :: answer where
  "first_row = \<lparr> a_id = 2, a_exam_id = 1, a_user_id = 1, jawaban = Map.empty, nilai = 0,
      waktu_submit = 5, is_submitted = False, progress_jawaban = None, a_created_at = 6 \<rparr>"

text \<open>An exam with eight questions.\<close>

definition eight_questions :: "question list" where
  "eight_questions =
     map (\<lambda>i. \<lparr> q_id = i, q_exam_id = 1, soal = ''Which one?'',
                pilihan = [''1'', ''2'', ''3'', ''4''], jawaban_benar = ''A'',
                q_created_at = 0 \<rparr>) [1..8]"

definition db_eight :: database where
  "db_eight = db_one\<lparr> questionsTable := eight_questions \<rparr>"

section \<open>Properties of the exam handlers\<close>

text \<open>
  C7. An exam of the table is in the active-exam listing evaluated at \<open>now\<close> if and only
  if its status is active and \<open>start \<le> now \<le> end\<close>; both bounds are inclusive.
\<close>

theorem getActiveExams_open_iff:
  "e \<in> set (getActiveExams now db) \<longleftrightarrow>
     e \<in> set (examsTable db) \<and> status e = Aktif \<and> tanggal_mulai e \<le> now \<and> now \<le> tanggal_selesai e"
  by (auto simp: getActiveExams_def)


theorem getActiveExams_open_iff_witness:
  "exam1 \<in> set (getActiveExams 1000 db_one) \<and> exam1 \<in> set (getActiveExams 2000 db_one) \<and>
   exam1 \<notin> set (getActiveExams 999 db_one) \<and> exam1 \<notin> set (getActiveExams 2001 db_one) \<and>
   exam1\<lparr>status := NonAktif\<rparr> \<notin> set (getActiveExams 1500 (db_one\<lparr>examsTable := [exam1\<lparr>status := NonAktif\<rparr>]\<rparr>))"
  using getActiveExams_open_iff [of exam1 1000 db_one] getActiveExams_open_iff [of exam1 2000 db_one]
    getActiveExams_open_iff [of exam1 999 db_one] getActiveExams_open_iff [of exam1 2001 db_one]
    getActiveExams_open_iff [of "exam1\<lparr>status := NonAktif\<rparr>" 1500
      "db_one\<lparr>examsTable := [exam1\<lparr>status := NonAktif\<rparr>]\<rparr>"]
  by (simp add: db_one_def exam1_def)

lemma find_filter_hd:
  "find P xs = (case filter P xs of [] \<Rightarrow> None | x # _ \<Rightarrow> Some x)"
  by (induction xs) auto

lemma e_id_set_exam_fields [simp]: "e_id (set_exam_fields inp e) = e_id e"
  by (simp add: set_exam_fields_def)

lemma filter_updated_exams:
  "filter (\<lambda>e. e_id e = i) (map (\<lambda>e. if e_id e = i then set_exam_fields inp e else e) xs) =
   map (set_exam_fields inp) (filter (\<lambda>e. e_id e = i) xs)"
  by (induction xs) auto

lemma updateExam_write_result:
  assumes "updateExam_write inp db = (Inr r, db')"
  shows "\<exists>ex. getExamById (ue_id inp) db = Some ex \<and> r = set_exam_fields inp ex"
  using assms
  by (auto simp: updateExam_write_def getExamById_def find_filter_hd filter_updated_exams Let_def
      split: if_splits list.splits)

text \<open>
  C8. The order \<open>end > start\<close> is enforced at creation and at every update that supplies a
  bound. \<^verbatim>\<open>createExam\<close> with \<open>end \<le> start\<close> throws the date-order error and leaves the
  database as it was, and the exam it returns otherwise has \<open>start < end\<close>. For an
  existing exam, \<^verbatim>\<open>updateExam\<close> with at least one bound supplied, where the effective end
  (the new one, or the stored one) is not after the effective start (the new one, or the
  stored one), throws the same error and leaves the database as it was; this covers
  updates that supply one bound only. An update that supplies a bound and succeeds
  returns an exam with \<open>start < end\<close>.
\<close>

theorem exam_date_order_enforced:
  "(ce_tanggal_selesai cinp \<le> ce_tanggal_mulai cinp \<longrightarrow>
      createExam now cinp db = (Inl DateOrder, db)) \<and>
   (createExam now cinp db = (Inr row, db') \<longrightarrow> tanggal_mulai row < tanggal_selesai row) \<and>
   (getExamById (ue_id uinp) db = Some ex \<and>
    (ue_tanggal_mulai uinp \<noteq> None \<or> ue_tanggal_selesai uinp \<noteq> None) \<and>
    or_else (ue_tanggal_selesai uinp) (tanggal_selesai ex)
      \<le> or_else (ue_tanggal_mulai uinp) (tanggal_mulai ex) \<longrightarrow>
      updateExam uinp db = (Inl DateOrder, db)) \<and>
   ((ue_tanggal_mulai uinp \<noteq> None \<or> ue_tanggal_selesai uinp \<noteq> None) \<and>
    updateExam uinp db = (Inr r, db'') \<longrightarrow> tanggal_mulai r < tanggal_selesai r)"
proof (intro conjI impI)
  assume "ce_tanggal_selesai cinp \<le> ce_tanggal_mulai cinp"
  then show "createExam now cinp db = (Inl DateOrder, db)"
    by (simp add: createExam_def)
next
  assume "createExam now cinp db = (Inr row, db')"
  then show "tanggal_mulai row < tanggal_selesai row"
    by (auto simp: createExam_def Let_def split: if_splits)
next
  assume h: "getExamById (ue_id uinp) db = Some ex \<and>
    (ue_tanggal_mulai uinp \<noteq> None \<or> ue_tanggal_selesai uinp \<noteq> None) \<and>
    or_else (ue_tanggal_selesai uinp) (tanggal_selesai ex)
      \<le> or_else (ue_tanggal_mulai uinp) (tanggal_mulai ex)"
  then show "updateExam uinp db = (Inl DateOrder, db)"
    by (cases "ue_tanggal_mulai uinp"; cases "ue_tanggal_selesai uinp")
       (auto simp: updateExam_def Let_def)
next
  assume h: "(ue_tanggal_mulai uinp \<noteq> None \<or> ue_tanggal_selesai uinp \<noteq> None) \<and>
    updateExam uinp db = (Inr r, db'')"
  then have w: "updateExam_write uinp db = (Inr r, db'')"
    by (auto simp: updateExam_def Let_def split: if_splits option.splits)
  then obtain ex0 where ex0: "getExamById (ue_id uinp) db = Some ex0" "r = set_exam_fields uinp ex0"
    using updateExam_write_result by blast
  from h ex0 show "tanggal_mulai r < tanggal_selesai r"
    by (cases "ue_tanggal_mulai uinp"; cases "ue_tanggal_selesai uinp")
       (auto simp: updateExam_def Let_def set_exam_fields_def split: if_splits)
qed


theorem exam_date_order_enforced_witness:
  "ce_tanggal_selesai create_same_instant \<le> ce_tanggal_mulai create_same_instant \<and>
   createExam 5 create_same_instant db_one = (Inl DateOrder, db_one) \<and>
   fst (createExam 5 create_valid db_one) = Inr (exam1\<lparr>e_id := 2, e_created_at := 5\<rparr>) \<and>
   tanggal_mulai (exam1\<lparr>e_id := 2, e_created_at := 5\<rparr>)
     < tanggal_selesai (exam1\<lparr>e_id := 2, e_created_at := 5\<rparr>) \<and>
   getExamById 1 db_one = Some exam1 \<and>
   updateExam (update_start_only 2000) db_one = (Inl DateOrder, db_one) \<and>
   fst (updateExam (update_start_only 1500) db_one) = Inr (exam1\<lparr>tanggal_mulai := 1500\<rparr>) \<and>
   tanggal_mulai (exam1\<lparr>tanggal_mulai := 1500\<rparr>)
     < tanggal_selesai (exam1\<lparr>tanggal_mulai := 1500\<rparr>)"
proof -
  have c: "createExam 5 create_valid db_one =
      (Inr (exam1\<lparr>e_id := 2, e_created_at := 5\<rparr>),
       db_one\<lparr>examsTable := [exam1, exam1\<lparr>e_id := 2, e_created_at := 5\<rparr>], exams_seq := 3\<rparr>)"
    by (simp add: createExam_def create_valid_def db_one_def exam1_def Let_def)
  have g: "getExamById 1 db_one = Some exam1"
    by (simp add: getExamById_def db_one_def exam1_def)
  have u: "updateExam (update_start_only 1500) db_one =
      (Inr (exam1\<lparr>tanggal_mulai := 1500\<rparr>), db_one\<lparr>examsTable := [exam1\<lparr>tanggal_mulai := 1500\<rparr>]\<rparr>)"
    by (simp add: updateExam_def updateExam_write_def update_start_only_def g Let_def,
        simp add: db_one_def exam1_def set_exam_fields_def)
  have f1: "createExam 5 create_same_instant db_one = (Inl DateOrder, db_one)"
    using exam_date_order_enforced [of create_same_instant 5 db_one]
    by (simp add: create_same_instant_def)
  have f2: "tanggal_mulai (exam1\<lparr>e_id := 2, e_created_at := 5\<rparr>)
      < tanggal_selesai (exam1\<lparr>e_id := 2, e_created_at := 5\<rparr>)"
    using exam_date_order_enforced [of create_valid 5 db_one] c by blast
  have f3: "updateExam (update_start_only 2000) db_one = (Inl DateOrder, db_one)"
    using exam_date_order_enforced [of _ _ db_one _ _ "update_start_only 2000" exam1] g
    by (simp add: update_start_only_def exam1_def)
  have f4: "tanggal_mulai (exam1\<lparr>tanggal_mulai := 1500\<rparr>)
      < tanggal_selesai (exam1\<lparr>tanggal_mulai := 1500\<rparr>)"
  proof -
    have "ue_tanggal_mulai (update_start_only 1500) \<noteq> None"
      by (simp add: update_start_only_def)
    with exam_date_order_enforced [of _ _ db_one _ _ "update_start_only 1500"] u
    show ?thesis by blast
  qed
  show ?thesis
    using f1 f2 f3 f4 c g u by (simp add: create_same_instant_def)
qed

lemma deleteExam_out_of_range:
  "\<not> int4 i \<Longrightarrow> deleteExam i db = (Inl IntegerOutOfRange, db)"
  by (simp add: deleteExam_def deleteExam_statements_def)

lemma deleteExam_run:
  assumes "int4 i"
  shows "run (deleteExam_statements i) db =
    ((Inr (filter (\<lambda>e. e_id e = i) (examsTable db)),
      db\<lparr> answersTable := filter (\<lambda>a. a_exam_id a \<noteq> i) (answersTable db),
           questionsTable := filter (\<lambda>q. q_exam_id q \<noteq> i) (questionsTable db),
           examsTable := filter (\<lambda>e. e_id e \<noteq> i) (examsTable db) \<rparr>),
     [db\<lparr> answersTable := filter (\<lambda>a. a_exam_id a \<noteq> i) (answersTable db) \<rparr>,
      db\<lparr> answersTable := filter (\<lambda>a. a_exam_id a \<noteq> i) (answersTable db),
           questionsTable := filter (\<lambda>q. q_exam_id q \<noteq> i) (questionsTable db) \<rparr>,
      db\<lparr> answersTable := filter (\<lambda>a. a_exam_id a \<noteq> i) (answersTable db),
           questionsTable := filter (\<lambda>q. q_exam_id q \<noteq> i) (questionsTable db),
           examsTable := filter (\<lambda>e. e_id e \<noteq> i) (examsTable db) \<rparr>])"
proof -
  have "\<not> exam_referenced i
      (db\<lparr> answersTable := filter (\<lambda>a. a_exam_id a \<noteq> i) (answersTable db),
           questionsTable := filter (\<lambda>q. q_exam_id q \<noteq> i) (questionsTable db) \<rparr>)"
    by (simp add: exam_referenced_def list_ex_iff)
  with assms show ?thesis
    by (simp add: deleteExam_statements_def Let_def)
qed

lemma foreign_keys_without_exam:
  assumes "foreign_keys_ok db"
  shows "foreign_keys_ok (db\<lparr> answersTable := filter (\<lambda>a. a_exam_id a \<noteq> i) (answersTable db) \<rparr>)"
    and "foreign_keys_ok
      (db\<lparr> answersTable := filter (\<lambda>a. a_exam_id a \<noteq> i) (answersTable db),
           questionsTable := filter (\<lambda>q. q_exam_id q \<noteq> i) (questionsTable db) \<rparr>)"
    and "foreign_keys_ok
      (db\<lparr> answersTable := filter (\<lambda>a. a_exam_id a \<noteq> i) (answersTable db),
           questionsTable := filter (\<lambda>q. q_exam_id q \<noteq> i) (questionsTable db),
           examsTable := filter (\<lambda>e. e_id e \<noteq> i) (examsTable db) \<rparr>)"
proof -
  have keep: "x \<in> e_id ` {e \<in> set (examsTable db). e_id e \<noteq> i}"
    if "x \<in> e_id ` set (examsTable db)" "x \<noteq> i" for x
    using that by blast
  from assms have fq: "\<forall>q \<in> set (questionsTable db). q_exam_id q \<in> e_id ` set (examsTable db)"
    and fa: "\<forall>a \<in> set (answersTable db). a_exam_id a \<in> e_id ` set (examsTable db)"
    and fu: "\<forall>a \<in> set (answersTable db). a_user_id a \<in> u_id ` set (usersTable db)"
    by (simp_all add: foreign_keys_ok_def list_all_iff)
  from fq fa fu
  show "foreign_keys_ok (db\<lparr> answersTable := filter (\<lambda>a. a_exam_id a \<noteq> i) (answersTable db) \<rparr>)"
    by (simp add: foreign_keys_ok_def list_all_iff)
  from fq fa fu
  show "foreign_keys_ok
      (db\<lparr> answersTable := filter (\<lambda>a. a_exam_id a \<noteq> i) (answersTable db),
           questionsTable := filter (\<lambda>q. q_exam_id q \<noteq> i) (questionsTable db) \<rparr>)"
    by (simp add: foreign_keys_ok_def list_all_iff)
  from fq have "\<forall>q \<in> set (questionsTable db). q_exam_id q \<noteq> i \<longrightarrow>
      q_exam_id q \<in> e_id ` {e \<in> set (examsTable db). e_id e \<noteq> i}"
    using keep by blast
  moreover from fa have "\<forall>a \<in> set (answersTable db). a_exam_id a \<noteq> i \<longrightarrow>
      a_exam_id a \<in> e_id ` {e \<in> set (examsTable db). e_id e \<noteq> i}"
    using keep by blast
  ultimately show "foreign_keys_ok
      (db\<lparr> answersTable := filter (\<lambda>a. a_exam_id a \<noteq> i) (answersTable db),
           questionsTable := filter (\<lambda>q. q_exam_id q \<noteq> i) (questionsTable db),
           examsTable := filter (\<lambda>e. e_id e \<noteq> i) (examsTable db) \<rparr>)"
    using fu by (simp add: foreign_keys_ok_def list_all_iff)
qed

text \<open>
  C6. For an id of the column's range: \<^verbatim>\<open>deleteExam\<close> on the id of an existing exam
  succeeds, and the database passes through three states: the answers of the exam gone;
  then its questions gone too; then the exam row gone too, which is the database it
  leaves. The exam row has to go last: while a question or an answer references the exam,
  the delete of the exam row fails on the foreign key. Rows of other exams stay, and
  afterwards no row of the three tables refers to the exam; nothing is asked of the
  number of dependent rows, so an exam with none is deleted the same way. In a database
  that respects the schema's foreign keys each of the three states respects them too, and
  on an id that no exam has \<^verbatim>\<open>deleteExam\<close> throws \<^verbatim>\<open>Exam not found\<close> and the database is
  as it was.
\<close>

theorem deleteExam_cascade:
  "(int4 i \<and> i \<in> set (map e_id (examsTable db)) \<longrightarrow>
      fst (deleteExam i db) = Inr () \<and>
      snd (run (deleteExam_statements i) db) =
        [db\<lparr> answersTable := filter (\<lambda>a. a_exam_id a \<noteq> i) (answersTable db) \<rparr>,
         db\<lparr> answersTable := filter (\<lambda>a. a_exam_id a \<noteq> i) (answersTable db),
              questionsTable := filter (\<lambda>q. q_exam_id q \<noteq> i) (questionsTable db) \<rparr>,
         db\<lparr> answersTable := filter (\<lambda>a. a_exam_id a \<noteq> i) (answersTable db),
              questionsTable := filter (\<lambda>q. q_exam_id q \<noteq> i) (questionsTable db),
              examsTable := filter (\<lambda>e. e_id e \<noteq> i) (examsTable db) \<rparr>] \<and>
      snd (deleteExam i db) =
        db\<lparr> answersTable := filter (\<lambda>a. a_exam_id a \<noteq> i) (answersTable db),
             questionsTable := filter (\<lambda>q. q_exam_id q \<noteq> i) (questionsTable db),
             examsTable := filter (\<lambda>e. e_id e \<noteq> i) (examsTable db) \<rparr> \<and>
      (exam_referenced i db \<longrightarrow> execute (DeleteExamRow i) db = (Inl ForeignKeyViolation, db)) \<and>
      filter (\<lambda>a. a_exam_id a = i) (answersTable (snd (deleteExam i db))) = [] \<and>
      filter (\<lambda>q. q_exam_id q = i) (questionsTable (snd (deleteExam i db))) = [] \<and>
      filter (\<lambda>e. e_id e = i) (examsTable (snd (deleteExam i db))) = [] \<and>
      (foreign_keys_ok db \<longrightarrow> list_all foreign_keys_ok (snd (run (deleteExam_statements i) db)))) \<and>
   (int4 i \<and> i \<notin> set (map e_id (examsTable db)) \<and> foreign_keys_ok db \<longrightarrow>
      deleteExam i db = (Inl ExamNotFound, db))"
proof (intro conjI impI)
  assume h: "int4 i \<and> i \<in> set (map e_id (examsTable db))"
  then have ne: "filter (\<lambda>e. e_id e = i) (examsTable db) \<noteq> []"
    by (auto simp: filter_empty_conv)
  from h have r: "run (deleteExam_statements i) db =
    ((Inr (filter (\<lambda>e. e_id e = i) (examsTable db)),
      db\<lparr> answersTable := filter (\<lambda>a. a_exam_id a \<noteq> i) (answersTable db),
           questionsTable := filter (\<lambda>q. q_exam_id q \<noteq> i) (questionsTable db),
           examsTable := filter (\<lambda>e. e_id e \<noteq> i) (examsTable db) \<rparr>),
     [db\<lparr> answersTable := filter (\<lambda>a. a_exam_id a \<noteq> i) (answersTable db) \<rparr>,
      db\<lparr> answersTable := filter (\<lambda>a. a_exam_id a \<noteq> i) (answersTable db),
           questionsTable := filter (\<lambda>q. q_exam_id q \<noteq> i) (questionsTable db) \<rparr>,
      db\<lparr> answersTable := filter (\<lambda>a. a_exam_id a \<noteq> i) (answersTable db),
           questionsTable := filter (\<lambda>q. q_exam_id q \<noteq> i) (questionsTable db),
           examsTable := filter (\<lambda>e. e_id e \<noteq> i) (examsTable db) \<rparr>])"
    by (simp add: deleteExam_run)
  from ne have d: "deleteExam i db =
      (Inr (), db\<lparr> answersTable := filter (\<lambda>a. a_exam_id a \<noteq> i) (answersTable db),
                    questionsTable := filter (\<lambda>q. q_exam_id q \<noteq> i) (questionsTable db),
                    examsTable := filter (\<lambda>e. e_id e \<noteq> i) (examsTable db) \<rparr>)"
    by (simp add: deleteExam_def r)
  show "fst (deleteExam i db) = Inr ()"
    by (simp add: d)
  show "snd (run (deleteExam_statements i) db) =
        [db\<lparr> answersTable := filter (\<lambda>a. a_exam_id a \<noteq> i) (answersTable db) \<rparr>,
         db\<lparr> answersTable := filter (\<lambda>a. a_exam_id a \<noteq> i) (answersTable db),
              questionsTable := filter (\<lambda>q. q_exam_id q \<noteq> i) (questionsTable db) \<rparr>,
         db\<lparr> answersTable := filter (\<lambda>a. a_exam_id a \<noteq> i) (answersTable db),
              questionsTable := filter (\<lambda>q. q_exam_id q \<noteq> i) (questionsTable db),
              examsTable := filter (\<lambda>e. e_id e \<noteq> i) (examsTable db) \<rparr>]"
    by (simp add: r)
  show "snd (deleteExam i db) =
        db\<lparr> answersTable := filter (\<lambda>a. a_exam_id a \<noteq> i) (answersTable db),
             questionsTable := filter (\<lambda>q. q_exam_id q \<noteq> i) (questionsTable db),
             examsTable := filter (\<lambda>e. e_id e \<noteq> i) (examsTable db) \<rparr>"
    by (simp add: d)
  show "filter (\<lambda>a. a_exam_id a = i) (answersTable (snd (deleteExam i db))) = []"
    by (simp add: d filter_empty_conv)
  show "filter (\<lambda>q. q_exam_id q = i) (questionsTable (snd (deleteExam i db))) = []"
    by (simp add: d filter_empty_conv)
  show "filter (\<lambda>e. e_id e = i) (examsTable (snd (deleteExam i db))) = []"
    by (simp add: d filter_empty_conv)
  {
    assume "exam_referenced i db"
    with h ne show "execute (DeleteExamRow i) db = (Inl ForeignKeyViolation, db)"
      by (simp add: Let_def)
  }
  {
    assume "foreign_keys_ok db"
    then show "list_all foreign_keys_ok (snd (run (deleteExam_statements i) db))"
      by (simp add: r foreign_keys_without_exam)
  }
next
  assume h: "int4 i \<and> i \<notin> set (map e_id (examsTable db)) \<and> foreign_keys_ok db"
  then have e: "filter (\<lambda>e. e_id e \<noteq> i) (examsTable db) = examsTable db"
    and e0: "filter (\<lambda>e. e_id e = i) (examsTable db) = []"
    by (auto simp: filter_id_conv filter_empty_conv)
  from h have q: "filter (\<lambda>q. q_exam_id q \<noteq> i) (questionsTable db) = questionsTable db"
    by (auto simp: filter_id_conv foreign_keys_ok_def list_all_iff)
  from h have a: "filter (\<lambda>a. a_exam_id a \<noteq> i) (answersTable db) = answersTable db"
    by (auto simp: filter_id_conv foreign_keys_ok_def list_all_iff)
  from h show "deleteExam i db = (Inl ExamNotFound, db)"
    by (simp add: deleteExam_def deleteExam_run e e0 q a)
qed

theorem deleteExam_cascade_witness:
  "int4 1 \<and> int4 7 \<and> 1 \<in> set (map e_id (examsTable db_one)) \<and>
   exam_referenced 1 db_one \<and> foreign_keys_ok db_one \<and>
   execute (DeleteExamRow 1) db_one = (Inl ForeignKeyViolation, db_one) \<and>
   fst (deleteExam 1 db_one) = Inr () \<and>
   snd (run (deleteExam_statements 1) db_one) =
     [db_one\<lparr> answersTable := [] \<rparr>,
      db_one\<lparr> answersTable := [], questionsTable := [] \<rparr>,
      db_one\<lparr> answersTable := [], questionsTable := [], examsTable := [] \<rparr>] \<and>
   snd (deleteExam 1 db_one) = db_one\<lparr> answersTable := [], questionsTable := [], examsTable := [] \<rparr> \<and>
   list_all foreign_keys_ok (snd (run (deleteExam_statements 1) db_one)) \<and>
   1 \<in> set (map e_id (examsTable (db_one\<lparr>questionsTable := [], answersTable := []\<rparr>))) \<and>
   fst (deleteExam 1 (db_one\<lparr>questionsTable := [], answersTable := []\<rparr>)) = Inr () \<and>
   7 \<notin> set (map e_id (examsTable db_one)) \<and>
   deleteExam 7 db_one = (Inl ExamNotFound, db_one)"
proof -
  have r: "int4 1" "int4 7"
    by (simp_all add: int4_def)
  have m: "1 \<in> set (map e_id (examsTable db_one))" "7 \<notin> set (map e_id (examsTable db_one))"
    "1 \<in> set (map e_id (examsTable (db_one\<lparr>questionsTable := [], answersTable := []\<rparr>)))"
    by (simp_all add: db_one_def exam1_def)
  have d: "exam_referenced 1 db_one"
    by (simp add: exam_referenced_def db_one_def question1_def)
  have fk: "foreign_keys_ok db_one"
    by (simp add: foreign_keys_ok_def db_one_def exam1_def question1_def answer1_def user1_def)
  have t: "filter (\<lambda>a. a_exam_id a \<noteq> 1) (answersTable db_one) = []"
    "filter (\<lambda>q. q_exam_id q \<noteq> 1) (questionsTable db_one) = []"
    "filter (\<lambda>e. e_id e \<noteq> 1) (examsTable db_one) = []"
    by (simp_all add: db_one_def exam1_def question1_def answer1_def)
  let ?d = "db_one\<lparr>questionsTable := [], answersTable := []\<rparr>"
  note c1 = deleteExam_cascade [of 1 db_one]
  note c7 = deleteExam_cascade [of 7 db_one]
  note c0 = deleteExam_cascade [of 1 ?d]
  have v: "execute (DeleteExamRow 1) db_one = (Inl ForeignKeyViolation, db_one)"
    using c1 r m d by blast
  have ok: "fst (deleteExam 1 db_one) = Inr ()"
    using c1 r m by blast
  have st: "snd (run (deleteExam_statements 1) db_one) =
     [db_one\<lparr> answersTable := [] \<rparr>,
      db_one\<lparr> answersTable := [], questionsTable := [] \<rparr>,
      db_one\<lparr> answersTable := [], questionsTable := [], examsTable := [] \<rparr>]"
    using c1 r m t by simp
  have fin: "snd (deleteExam 1 db_one) =
      db_one\<lparr> answersTable := [], questionsTable := [], examsTable := [] \<rparr>"
    using c1 r m t by simp
  have all: "list_all foreign_keys_ok (snd (run (deleteExam_statements 1) db_one))"
    using c1 r m fk by blast
  have ok0: "fst (deleteExam 1 ?d) = Inr ()"
    using c0 r m by blast
  have nf: "deleteExam 7 db_one = (Inl ExamNotFound, db_one)"
    using c7 r m fk by blast
  from r m d fk v ok st fin all ok0 nf show ?thesis
    by blast
qed

section \<open>Properties of the score\<close>

text \<open>
  The rounding of \<open>to_double\<close>: the value returned is within a relative error of
  \<open>2\<^sup>-\<^sup>5\<^sup>3\<close> of the quotient.
\<close>

lemma normalise_spec:
  assumes "0 < p" "0 < q" "normalise p q e = (p', q', e')"
  shows "0 < q' \<and> 2 ^ 52 * q' \<le> p' \<and> p' < 2 ^ 53 * q' \<and>
         real p' / real q' * 2 powr real_of_int e' = real p / real q * 2 powr real_of_int e"
  using assms
proof (induction p q e rule: normalise.induct)
  case (1 p q e)
  show ?case
  proof (cases "p < 2 ^ 52 * q")
    case True
    with "1.prems" have n: "normalise (2 * p) q (e - 1) = (p', q', e')"
      by (simp add: normalise.simps [of p q e])
    from "1.prems" True have "0 < q' \<and> 2 ^ 52 * q' \<le> p' \<and> p' < 2 ^ 53 * q' \<and>
        real p' / real q' * 2 powr real_of_int e' = real (2 * p) / real q * 2 powr real_of_int (e - 1)"
      by (intro "1.IH"(1) n) auto
    moreover have "real (2 * p) / real q * 2 powr real_of_int (e - 1) = real p / real q * 2 powr real_of_int e"
      by (simp add: powr_diff)
    ultimately show ?thesis by simp
  next
    case False
    show ?thesis
    proof (cases "2 ^ 53 * q \<le> p")
      case True
      with False "1.prems" have n: "normalise p (2 * q) (e + 1) = (p', q', e')"
        by (simp add: normalise.simps [of p q e])
      from "1.prems" False True have "0 < q' \<and> 2 ^ 52 * q' \<le> p' \<and> p' < 2 ^ 53 * q' \<and>
          real p' / real q' * 2 powr real_of_int e' = real p / real (2 * q) * 2 powr real_of_int (e + 1)"
        by (intro "1.IH"(2) n) auto
      moreover have "real p / real (2 * q) * 2 powr real_of_int (e + 1) = real p / real q * 2 powr real_of_int e"
        by (simp add: powr_add)
      ultimately show ?thesis by simp
    next
      case b: False
      with False "1.prems" have "(p', q', e') = (p, q, e)"
        by (simp add: normalise.simps [of p q e])
      with False b "1.prems" show ?thesis by simp
    qed
  qed
qed

lemma round_ties_even_near:
  assumes "0 < q"
  shows "\<bar>real (round_ties_even p q) - real p / real q\<bar> \<le> 1 / 2"
proof -
  define f r where "f = p div q" and "r = p mod q"
  have p: "real p = real q * real f + real r"
    unfolding f_def r_def by (metis of_nat_add of_nat_mult mult_div_mod_eq)
  have r: "r < q" unfolding r_def using assms by simp
  have frac: "real p / real q = real f + real r / real q"
    using assms by (simp add: p field_simps)
  consider "2 * r < q" | "q < 2 * r" | "2 * r = q" by linarith
  then show ?thesis
  proof cases
    case 1
    then have "round_ties_even p q = f"
      by (simp add: round_ties_even_def f_def r_def Let_def)
    moreover from 1 assms have "real r / real q < 1 / 2"
      by (auto simp: field_simps)
    ultimately show ?thesis by (simp add: frac)
  next
    case 2
    then have "round_ties_even p q = f + 1"
      by (simp add: round_ties_even_def f_def r_def Let_def)
    moreover from 2 assms have "1 / 2 < real r / real q"
      by (auto simp: field_simps)
    moreover from r assms have "real r / real q < 1"
      by simp
    ultimately show ?thesis by (simp add: frac)
  next
    case 3
    then have "real q = 2 * real r"
      by (metis of_nat_mult of_nat_numeral)
    with assms have half: "real r / real q = 1 / 2"
      by simp
    have h: "real p / real q = real f + 1 / 2"
      unfolding frac half ..
    from 3 have "round_ties_even p q = f \<or> round_ties_even p q = f + 1"
      by (simp add: round_ties_even_def f_def r_def Let_def)
    then show ?thesis
      unfolding h by auto
  qed
qed

lemma to_double_error:
  assumes "0 < p" "0 < q"
  shows "\<bar>double_value (to_double p q) - real p / real q\<bar> \<le> real p / real q / 2 ^ 53"
proof -
  obtain p' q' e' where n: "normalise p q 0 = (p', q', e')"
    by (cases "normalise p q 0") auto
  from normalise_spec [OF assms n]
  have q': "0 < q'" and lo: "2 ^ 52 * q' \<le> p'"
    and v: "real p' / real q' * 2 powr real_of_int e' = real p / real q"
    by simp_all
  let ?s = "2 powr real_of_int e'"
  have s: "0 < ?s" by simp
  have d: "double_value (to_double p q) = real (round_ties_even p' q') * ?s"
    using assms by (simp add: to_double_def n double_value_def)
  have "\<bar>real (round_ties_even p' q') - real p' / real q'\<bar> \<le> 1 / 2"
    using q' by (rule round_ties_even_near)
  then have "\<bar>real (round_ties_even p' q') - real p' / real q'\<bar> * ?s \<le> 1 / 2 * ?s"
    using s by (intro mult_right_mono) auto
  moreover have "double_value (to_double p q) - real p / real q =
      (real (round_ties_even p' q') - real p' / real q') * ?s"
    by (simp add: d v [symmetric] algebra_simps)
  then have "\<bar>double_value (to_double p q) - real p / real q\<bar> =
      \<bar>real (round_ties_even p' q') - real p' / real q'\<bar> * ?s"
    by (simp add: abs_mult)
  ultimately have e1: "\<bar>double_value (to_double p q) - real p / real q\<bar> \<le> ?s / 2"
    by simp
  from lo have "real (2 ^ 52 * q') \<le> real p'" by (rule iffD2 [OF of_nat_le_iff])
  then have "2 ^ 52 \<le> real p' / real q'"
    using q' by (simp add: field_simps)
  then have "2 ^ 52 * ?s \<le> real p' / real q' * ?s"
    using s by (intro mult_right_mono) auto
  then have "?s / 2 \<le> real p / real q / 2 ^ 53"
    unfolding v by simp
  with e1 show ?thesis by linarith
qed

lemma Math_round_floor: "Math_round x = \<lfloor>double_value x + 1 / 2\<rfloor>"
proof (cases x)
  case (Pair m e)
  show ?thesis
  proof (cases "0 \<le> e")
    case True
    then have "2 powr real_of_int e = 2 ^ nat e"
      by (metis of_nat_nat powr_realpow zero_less_numeral of_int_of_nat_eq)
    then have "double_value x = real (m * 2 ^ nat e)"
      by (simp add: Pair double_value_def)
    moreover have "\<lfloor>real (m * 2 ^ nat e) + 1 / 2\<rfloor> = int (m * 2 ^ nat e)"
      by linarith
    ultimately show ?thesis
      using True by (simp add: Pair Math_round_def)
  next
    case False
    define k where "k = nat (- e)"
    from False have e: "e = - int k" by (simp add: k_def)
    have "2 powr real_of_int e = 1 / 2 ^ k"
      unfolding e by (simp add: powr_minus powr_realpow inverse_eq_divide)
    then have "double_value x + 1 / 2 = real (2 * m + 2 ^ k) / real (2 * 2 ^ k)"
      by (simp add: Pair double_value_def field_simps)
    then have "\<lfloor>double_value x + 1 / 2\<rfloor> = int ((2 * m + 2 ^ k) div (2 * 2 ^ k))"
      by (simp only: floor_divide_of_nat_eq)
    then show ?thesis
      using False by (simp add: Pair Math_round_def k_def)
  qed
qed


lemma js_divide_error:
  assumes "0 < a" "0 < b"
  shows "\<bar>double_value (js_divide a b) - real a / real b\<bar> \<le> real a / real b / 2 ^ 53"
  unfolding js_divide_def using assms by (rule to_double_error)

lemma to_double_zero: "double_value (to_double 0 q) = 0"
  by (simp add: to_double_def double_value_def)

lemma js_times_error:
  "\<bar>double_value (js_times x k) - double_value x * real k\<bar> \<le> double_value x * real k / 2 ^ 53"
proof (cases x)
  case (Pair m e)
  show ?thesis
  proof (cases "m * k = 0")
    case True
    then have a: "double_value (js_times x k) = 0"
      by (auto simp: Pair js_times_def to_double_zero)
    from True have b: "double_value x * real k = 0"
      by (auto simp: Pair double_value_def)
    show ?thesis unfolding a b by simp
  next
    case False
    then have mk: "0 < m * k" by simp
    show ?thesis
    proof (cases "0 \<le> e")
      case True
      then have pw: "2 powr real_of_int e = 2 ^ nat e"
        by (metis of_nat_nat powr_realpow zero_less_numeral)
      have v: "real (m * k * 2 ^ nat e) / real 1 = double_value x * real k"
        by (simp add: Pair double_value_def pw)
      from mk have "0 < m * k * 2 ^ nat e" by simp
      from to_double_error [OF this, of 1] True show ?thesis
        unfolding v by (simp add: Pair js_times_def)
    next
      case False
      define j where "j = nat (- e)"
      from False have e: "e = - int j" by (simp add: j_def)
      have pw: "2 powr real_of_int e = 1 / 2 ^ j"
        unfolding e by (simp add: powr_minus powr_realpow inverse_eq_divide)
      have v: "real (m * k) / real (2 ^ j) = double_value x * real k"
        by (simp add: Pair double_value_def pw)
      have "0 < (2::nat) ^ j" by simp
      from to_double_error [OF mk this] False show ?thesis
        unfolding v by (simp add: Pair js_times_def j_def)
    qed
  qed
qed

lemma score_zero: "Math_round (js_times (js_divide 0 n) 100) = 0"
  by (simp add: js_divide_def js_times_def to_double_def Math_round_def)

lemma score_real_bounds:
  assumes "0 < c" "c \<le> n"
  defines "z \<equiv> double_value (js_times (js_divide c n) 100)"
  shows "\<bar>z - 100 * (real c / real n)\<bar> \<le> 201 / 2 ^ 53"
proof -
  define x where "x = real c / real n"
  define y where "y = double_value (js_divide c n)"
  from assms have n: "0 < n" by simp
  have x: "0 < x" "x \<le> 1"
    using assms n by (simp_all add: x_def)
  have ey: "\<bar>y - x\<bar> \<le> x / 2 ^ 53"
    unfolding x_def y_def using assms(1) n by (rule js_divide_error)
  have ez: "\<bar>z - y * 100\<bar> \<le> y * 100 / 2 ^ 53"
    using js_times_error [of "js_divide c n" 100] by (simp add: z_def y_def)
  from ey have y1: "y \<le> x + x / 2 ^ 53" and y2: "x - x / 2 ^ 53 \<le> y"
    by (simp_all only: abs_le_iff) linarith+
  from ez have z1: "z \<le> y * 100 + y * 100 / 2 ^ 53" and z2: "y * 100 - y * 100 / 2 ^ 53 \<le> z"
    by (simp_all only: abs_le_iff) linarith+
  have "z - 100 * x \<le> 201 / 2 ^ 53"
    using x y1 z1 by simp
  moreover have "- (z - 100 * x) \<le> 201 / 2 ^ 53"
    using x y2 z2 by simp
  ultimately show ?thesis
    unfolding x_def [symmetric] by (rule abs_leI)
qed



lemma score_range:
  assumes "0 < n" "c \<le> n"
  defines "S \<equiv> Math_round (js_times (js_divide c n) 100)"
  shows "0 \<le> S \<and> S \<le> 100"
proof (cases "c = 0")
  case True
  then show ?thesis by (simp add: S_def score_zero)
next
  case False
  then have c: "0 < c" by simp
  define x where "x = real c / real n"
  define z where "z = double_value (js_times (js_divide c n) 100)"
  have x: "0 < x" "x \<le> 1"
    using assms c by (simp_all add: x_def)
  have "\<bar>z - 100 * x\<bar> \<le> 201 / 2 ^ 53"
    unfolding z_def x_def using c assms(2) by (rule score_real_bounds)
  then have zu: "z \<le> 100 * x + 201 / 2 ^ 53" and zl: "100 * x - 201 / 2 ^ 53 \<le> z"
    by (simp_all only: abs_le_iff) linarith+
  have S: "S = \<lfloor>z + 1 / 2\<rfloor>"
    by (simp add: S_def z_def Math_round_floor)
  have f1: "real_of_int S \<le> z + 1 / 2"
    unfolding S by linarith
  have lo: "0 \<le> S"
  proof -
    from zl x have "0 \<le> z + 1 / 2" by simp
    then show ?thesis unfolding S by simp
  qed
  have hi: "S \<le> 100"
  proof -
    from f1 zu x have "real_of_int S < 101" by simp
    then show ?thesis by linarith
  qed
  from lo hi show ?thesis by simp
qed

lemma score_range_nearest:
  assumes "0 < n" "c \<le> n" "n \<le> 2 ^ 44"
  defines "S \<equiv> Math_round (js_times (js_divide c n) 100)"
  shows "0 \<le> S \<and> S \<le> 100 \<and> 2 * \<bar>int n * S - 100 * int c\<bar> \<le> int n"
proof (cases "c = 0")
  case True
  then show ?thesis by (simp add: S_def score_zero)
next
  case False
  then have c: "0 < c" by simp
  define x where "x = real c / real n"
  define z where "z = double_value (js_times (js_divide c n) 100)"
  have x: "0 < x" "x \<le> 1" and nx: "real n * x = real c"
    using assms c by (simp_all add: x_def)
  have "\<bar>z - 100 * x\<bar> \<le> 201 / 2 ^ 53"
    unfolding z_def x_def using c assms(2) by (rule score_real_bounds)
  then have zu: "z \<le> 100 * x + 201 / 2 ^ 53" and zl: "100 * x - 201 / 2 ^ 53 \<le> z"
    by (simp_all only: abs_le_iff) linarith+
  have S: "S = \<lfloor>z + 1 / 2\<rfloor>"
    by (simp add: S_def z_def Math_round_floor)
  have f1: "real_of_int S \<le> z + 1 / 2" and f2: "z + 1 / 2 < real_of_int S + 1"
    unfolding S by linarith+
  have n44: "real n \<le> 2 ^ 44"
    using assms(3) by (metis of_nat_le_iff of_nat_numeral of_nat_power)
  have npos: "0 < real n" using assms(1) by simp
  have e1: "real n * (real_of_int S - 100 * x) = real n * real_of_int S - 100 * real c"
    unfolding nx [symmetric] by (simp add: algebra_simps)
  have e2: "real n * (1 / 2 + 201 / 2 ^ 53) = real n / 2 + real n * (201 / 2 ^ 53)"
    by (simp add: algebra_simps)
  have lo: "0 \<le> S"
  proof -
    from zl x have "0 \<le> z + 1 / 2" by simp
    then show ?thesis unfolding S by simp
  qed
  have hi: "S \<le> 100"
  proof -
    from f1 zu x have "real_of_int S < 101" by simp
    then show ?thesis by linarith
  qed
  have up: "2 * (int n * S - 100 * int c) \<le> int n"
  proof -
    from f1 zu have "real_of_int S - 100 * x \<le> 1 / 2 + 201 / 2 ^ 53" by simp
    with npos have "real n * (real_of_int S - 100 * x) \<le> real n * (1 / 2 + 201 / 2 ^ 53)"
      by (intro mult_left_mono) auto
    then have "real n * real_of_int S - 100 * real c \<le> real n / 2 + real n * (201 / 2 ^ 53)"
      unfolding e1 e2 .
    with n44 have "2 * (real n * real_of_int S - 100 * real c) < real n + 1"
      by simp
    then have "real_of_int (2 * (int n * S - 100 * int c)) < real_of_int (int n + 1)"
      by simp
    then have "2 * (int n * S - 100 * int c) < int n + 1"
      by (simp only: of_int_less_iff)
    then show ?thesis by simp
  qed
  have dn: "- int n \<le> 2 * (int n * S - 100 * int c)"
  proof -
    from f2 zl have "- (1 / 2 + 201 / 2 ^ 53) < real_of_int S - 100 * x" by simp
    with npos have "real n * (- (1 / 2 + 201 / 2 ^ 53)) < real n * (real_of_int S - 100 * x)"
      by (intro mult_strict_left_mono) auto
    then have "- (real n / 2 + real n * (201 / 2 ^ 53)) < real n * real_of_int S - 100 * real c"
      unfolding e1 mult_minus_right e2 .
    with n44 have "- real n - 1 < 2 * (real n * real_of_int S - 100 * real c)"
      by simp
    then have "real_of_int (- int n - 1) < real_of_int (2 * (int n * S - 100 * int c))"
      by simp
    then have "- int n - 1 < 2 * (int n * S - 100 * int c)"
      by (simp only: of_int_less_iff)
    then show ?thesis by simp
  qed
  from up dn have "2 * \<bar>int n * S - 100 * int c\<bar> \<le> int n"
    by linarith
  with lo hi show ?thesis by simp
qed



lemma nearest_not_tie:
  fixes S :: int and n c :: nat
  assumes "0 \<le> S" "2 * \<bar>int n * S - 100 * int c\<bar> \<le> int n"
    and "(200 * c + n) mod (2 * n) \<noteq> 0"
  shows "S = int ((200 * c + n) div (2 * n))"
proof -
  from assms(1) obtain s where s: "S = int s"
    by (metis nonneg_int_cases)
  define P where "P = int n * S"
  define D where "D = P - 100 * int c"
  have d: "2 * \<bar>D\<bar> \<le> int n"
    using assms(2) by (simp only: D_def P_def)
  have "D \<le> \<bar>D\<bar>" and "- D \<le> \<bar>D\<bar>"
    by simp_all
  with d have "2 * D \<le> int n" and "- int n \<le> 2 * D"
    by simp_all
  then have p1: "2 * P - 200 * int c \<le> int n" and p2: "- int n \<le> 2 * P - 200 * int c"
    by (simp_all add: D_def)
  have e1: "int (2 * n * s) = 2 * P" and e2: "int (2 * n * Suc s) = 2 * P + 2 * int n"
    and e3: "int (200 * c + n) = 200 * int c + int n"
    by (simp_all add: P_def s algebra_simps)
  from p1 have "int (2 * n * s) \<le> int (200 * c + n)"
    unfolding e1 e3 by linarith
  moreover from p2 have "int (200 * c + n) \<le> int (2 * n * Suc s)"
    unfolding e2 e3 by linarith
  ultimately have a: "2 * n * s \<le> 200 * c + n" and b: "200 * c + n \<le> 2 * n * Suc s"
    by (simp_all only: of_nat_le_iff)
  have "200 * c + n \<noteq> 2 * n * Suc s"
  proof
    assume "200 * c + n = 2 * n * Suc s"
    then have "(200 * c + n) mod (2 * n) = 0" by simp
    with assms(3) show False by simp
  qed
  with b have "200 * c + n < 2 * n * Suc s" by simp
  with a have "(200 * c + n) div (2 * n) = s"
    by (intro div_nat_eqI) simp_all
  then show ?thesis by (simp add: s)
qed

lemma count_correct_filter:
  "count_correct m qs acc =
     acc + length (filter (\<lambda>q. truthy (m (toString (q_id q))) \<and>
                                 m (toString (q_id q)) = Some (jawaban_benar q)) qs)"
  by (induction qs arbitrary: acc) (auto simp: Let_def)

lemma count_correct_exact:
  assumes "\<forall>q \<in> set qs. jawaban_benar q \<noteq> []"
  shows "count_correct m qs 0 = length (filter (\<lambda>q. m (toString (q_id q)) = Some (jawaban_benar q)) qs)"
proof -
  have "filter (\<lambda>q. truthy (m (toString (q_id q))) \<and> m (toString (q_id q)) = Some (jawaban_benar q)) qs =
      filter (\<lambda>q. m (toString (q_id q)) = Some (jawaban_benar q)) qs"
    using assms by (intro filter_cong) auto
  then show ?thesis by (simp add: count_correct_filter)
qed



lemma spec_round_half_up_div:
  assumes "0 < q"
  shows "spec_round_half_up p q = int ((2 * p + q) div (2 * q))"
proof -
  have "real p / real q + 1 / 2 = real (2 * p + q) / real (2 * q)"
    using assms by (simp add: field_simps)
  then show ?thesis
    by (simp only: spec_round_half_up_def floor_divide_of_nat_eq)
qed

lemma nearest_tie:
  fixes S :: int and n c :: nat
  assumes "0 < n" "0 \<le> S" "2 * \<bar>int n * S - 100 * int c\<bar> \<le> int n"
  shows "S = int ((200 * c + n) div (2 * n)) \<or> S = int ((200 * c + n) div (2 * n)) - 1"
proof (cases "(200 * c + n) mod (2 * n) = 0")
  case False
  with assms show ?thesis by (simp add: nearest_not_tie)
next
  case True
  define R where "R = (200 * c + n) div (2 * n)"
  from True have t: "200 * c + n = 2 * n * R"
    unfolding R_def by (metis mult_div_mod_eq add.right_neutral)
  from assms(2) obtain s where s: "S = int s"
    by (metis nonneg_int_cases)
  define P where "P = int n * S"
  define D where "D = P - 100 * int c"
  have d: "2 * \<bar>D\<bar> \<le> int n"
    using assms(3) by (simp only: D_def P_def)
  have "D \<le> \<bar>D\<bar>" and "- D \<le> \<bar>D\<bar>"
    by simp_all
  with d have "2 * D \<le> int n" and "- int n \<le> 2 * D"
    by simp_all
  then have p1: "2 * P - 200 * int c \<le> int n" and p2: "- int n \<le> 2 * P - 200 * int c"
    by (simp_all add: D_def)
  have e1: "int (2 * n * s) = 2 * P" and e2: "int (2 * n * Suc s) = 2 * P + 2 * int n"
    and e3: "int (200 * c + n) = 200 * int c + int n"
    by (simp_all add: P_def s algebra_simps)
  from p1 have "int (2 * n * s) \<le> int (200 * c + n)"
    unfolding e1 e3 by linarith
  moreover from p2 have "int (200 * c + n) \<le> int (2 * n * Suc s)"
    unfolding e2 e3 by linarith
  ultimately have l1: "2 * n * s \<le> 2 * n * R" and l2: "2 * n * R \<le> 2 * n * Suc s"
    unfolding t by (simp_all only: of_nat_le_iff)
  have k: "0 < 2 * n"
    using assms(1) by simp
  from l1 k have "s \<le> R"
    by (metis mult_le_cancel1)
  moreover from l2 k have "R \<le> Suc s"
    by (metis mult_le_cancel1)
  ultimately have "s = R \<or> s = R - 1 \<and> 0 < R" by linarith
  then show ?thesis
    unfolding R_def [symmetric] s by auto
qed

lemma fl_23_40: "Math_round (js_times (js_divide 23 40) 100) = 57"
  by (simp add: js_divide_def js_times_def to_double_def normalise.simps round_ties_even_def
      Math_round_def Let_def)

lemma fl_1_8: "Math_round (js_times (js_divide (Suc 0) 8) 100) = 13"
  by (simp add: js_divide_def js_times_def to_double_def normalise.simps round_ties_even_def
      Math_round_def Let_def)

lemma fl_1_1: "Math_round (js_times (js_divide (Suc 0) (Suc 0)) 100) = 100"
  by (simp add: js_divide_def js_times_def to_double_def normalise.simps round_ties_even_def
      Math_round_def Let_def)

text \<open>
  C1. \<^verbatim>\<open>calculateScore\<close> rounds the double \<^verbatim>\<open>(correctAnswers / questions.length) * 100\<close>,
  not the exact quotient: with 23 of 40 questions right the double is just below 57.5 and
  the score is 57, where the exact 57.5 rounded half up is 58. For every exam id, answer
  map and database the score is 0 for an exam without questions and is an integer from 0
  to 100. When no question of the exam has the empty string as its correct choice (the
  schema admits A, B, C and D), the score is \<^verbatim>\<open>Math.round\<close> of the double
  \<open>(correctCount / totalQuestions) * 100\<close>, where \<open>correctCount\<close> counts the exam's
  questions whose correct choice equals the value stored under the question's id as a
  string (a question with no entry is not counted). For an exam of at most \<open>2\<^sup>4\<^sup>4\<close>
  questions the score then is an integer nearest to the exact percentage; it is the exact
  percentage rounded half up whenever that percentage is not an integer plus one half;
  and in every case it is that rounded value or the one below.
\<close>

theorem calculateScore_round_of_double:
  "(spec_totalQuestions examId db = 0 \<longrightarrow> calculateScore examId m db = 0) \<and>
   0 \<le> calculateScore examId m db \<and> calculateScore examId m db \<le> 100 \<and>
   ((\<forall>q \<in> set (questionsTable db). q_exam_id q = examId \<longrightarrow> jawaban_benar q \<noteq> []) \<longrightarrow>
      calculateScore examId m db =
        (if spec_totalQuestions examId db = 0 then 0
         else Math_round
                (js_times (js_divide (spec_correctCount examId m db)
                                     (spec_totalQuestions examId db)) 100)) \<and>
      (spec_totalQuestions examId db \<le> 2 ^ 44 \<longrightarrow>
         2 * \<bar>int (spec_totalQuestions examId db) * calculateScore examId m db
               - 100 * int (spec_correctCount examId m db)\<bar> \<le> int (spec_totalQuestions examId db) \<and>
         ((200 * spec_correctCount examId m db + spec_totalQuestions examId db)
             mod (2 * spec_totalQuestions examId db) \<noteq> 0 \<longrightarrow>
           calculateScore examId m db = spec_score examId m db) \<and>
         (calculateScore examId m db = spec_score examId m db \<or>
          calculateScore examId m db = spec_score examId m db - 1)))"
proof -
  define qs where "qs = filter (\<lambda>q. q_exam_id q = examId) (questionsTable db)"
  define n where "n = length qs"
  define k where "k = count_correct m qs 0"
  have n: "spec_totalQuestions examId db = n"
    by (simp add: spec_totalQuestions_def n_def qs_def)
  have kn: "k \<le> n"
    by (simp add: k_def n_def count_correct_filter)
  have score: "calculateScore examId m db =
      (if n = 0 then 0 else Math_round (js_times (js_divide k n) 100))"
  proof (cases "qs = []")
    case True
    then show ?thesis
      by (simp add: calculateScore_def qs_def [symmetric] n_def)
  next
    case False
    then show ?thesis
      by (simp add: calculateScore_def qs_def [symmetric] n_def k_def Let_def)
  qed
  have zero: "n = 0 \<longrightarrow> calculateScore examId m db = 0"
    by (simp add: score)
  have range: "0 \<le> calculateScore examId m db \<and> calculateScore examId m db \<le> 100"
  proof (cases "n = 0")
    case True
    then show ?thesis by (simp add: score)
  next
    case False
    with kn score_range [of n k] show ?thesis by (simp add: score)
  qed
  have rest: "calculateScore examId m db =
        (if n = 0 then 0
         else Math_round (js_times (js_divide (spec_correctCount examId m db) n) 100)) \<and>
      (n \<le> 2 ^ 44 \<longrightarrow>
         2 * \<bar>int n * calculateScore examId m db - 100 * int (spec_correctCount examId m db)\<bar> \<le> int n \<and>
         ((200 * spec_correctCount examId m db + n) mod (2 * n) \<noteq> 0 \<longrightarrow>
           calculateScore examId m db = spec_score examId m db) \<and>
         (calculateScore examId m db = spec_score examId m db \<or>
          calculateScore examId m db = spec_score examId m db - 1))"
    if h: "\<forall>q \<in> set (questionsTable db). q_exam_id q = examId \<longrightarrow> jawaban_benar q \<noteq> []"
  proof -
    from h have "\<forall>q \<in> set qs. jawaban_benar q \<noteq> []"
      by (simp add: qs_def)
    then have c: "spec_correctCount examId m db = k"
      by (simp add: spec_correctCount_def k_def qs_def [symmetric] count_correct_exact)
    show ?thesis
    proof (cases "n = 0")
      case True
      with kn have "k = 0" by simp
      with True show ?thesis
        by (simp add: score c spec_score_def n)
    next
      case False
      then have pos: "0 < n" by simp
      define S where "S = Math_round (js_times (js_divide k n) 100)"
      have sc: "calculateScore examId m db = S"
        using False by (simp add: score S_def)
      have spec: "spec_score examId m db = int ((200 * k + n) div (2 * n))"
        using False pos by (simp add: spec_score_def n c spec_round_half_up_div)
      have near: "n \<le> 2 ^ 44 \<longrightarrow>
          2 * \<bar>int n * S - 100 * int k\<bar> \<le> int n \<and>
          ((200 * k + n) mod (2 * n) \<noteq> 0 \<longrightarrow> S = int ((200 * k + n) div (2 * n))) \<and>
          (S = int ((200 * k + n) div (2 * n)) \<or> S = int ((200 * k + n) div (2 * n)) - 1)"
      proof
        assume "n \<le> 2 ^ 44"
        with pos kn have r: "0 \<le> S \<and> S \<le> 100 \<and> 2 * \<bar>int n * S - 100 * int k\<bar> \<le> int n"
          unfolding S_def by (rule score_range_nearest)
        then have "(200 * k + n) mod (2 * n) \<noteq> 0 \<longrightarrow> S = int ((200 * k + n) div (2 * n))"
          by (simp add: nearest_not_tie)
        moreover from r pos
        have "S = int ((200 * k + n) div (2 * n)) \<or> S = int ((200 * k + n) div (2 * n)) - 1"
          by (simp add: nearest_tie)
        ultimately show "2 * \<bar>int n * S - 100 * int k\<bar> \<le> int n \<and>
          ((200 * k + n) mod (2 * n) \<noteq> 0 \<longrightarrow> S = int ((200 * k + n) div (2 * n))) \<and>
          (S = int ((200 * k + n) div (2 * n)) \<or> S = int ((200 * k + n) div (2 * n)) - 1)"
          using r by simp
      qed
      from False near show ?thesis
        unfolding c sc spec by (simp add: S_def)
    qed
  qed
  from zero range rest show ?thesis
    unfolding n by blast
qed

theorem calculateScore_round_of_double_witness:
  "spec_totalQuestions 99 db_one = 0 \<and> calculateScore 99 Map.empty db_one = 0 \<and>
   spec_totalQuestions 1 db_one = 1 \<and> spec_correctCount 1 [''1'' \<mapsto> ''D''] db_one = 1 \<and>
   calculateScore 1 [''1'' \<mapsto> ''D''] db_one = 100 \<and>
   spec_score 1 [''1'' \<mapsto> ''D''] db_one = 100 \<and>
   spec_totalQuestions 1 db_eight = 8 \<and> spec_correctCount 1 [''1'' \<mapsto> ''A''] db_eight = 1 \<and>
   calculateScore 1 [''1'' \<mapsto> ''A''] db_eight = 13 \<and>
   spec_score 1 [''1'' \<mapsto> ''A''] db_eight = 13 \<and>
   spec_totalQuestions 1 db_forty = 40 \<and> spec_correctCount 1 answers_23 db_forty = 23 \<and>
   calculateScore 1 answers_23 db_forty = 57 \<and>
   0 \<le> calculateScore 1 answers_23 db_forty \<and> calculateScore 1 answers_23 db_forty \<le> 100 \<and>
   2 * \<bar>40 * calculateScore 1 answers_23 db_forty - 2300\<bar> \<le> 40 \<and>
   calculateScore 1 answers_23 db_forty = spec_score 1 answers_23 db_forty - 1"
proof -
  have h1: "\<forall>q \<in> set (questionsTable db_one). q_exam_id q = 1 \<longrightarrow> jawaban_benar q \<noteq> []"
    by (simp add: db_one_def question1_def)
  have h8: "\<forall>q \<in> set (questionsTable db_eight). q_exam_id q = 1 \<longrightarrow> jawaban_benar q \<noteq> []"
    by (auto simp: db_eight_def eight_questions_def)
  have h40: "\<forall>q \<in> set (questionsTable db_forty). q_exam_id q = 1 \<longrightarrow> jawaban_benar q \<noteq> []"
    by (auto simp: db_forty_def forty_questions_def)
  have q40: "filter (\<lambda>q. q_exam_id q = 1) (questionsTable db_forty) = forty_questions"
    by (simp add: db_forty_def forty_questions_def)
  have q8: "filter (\<lambda>q. q_exam_id q = 1) (questionsTable db_eight) = eight_questions"
    by (simp add: db_eight_def eight_questions_def)
  have l40: "length forty_questions = 40" and l8: "length eight_questions = 8"
    by code_simp+
  have "length (filter (\<lambda>q. answers_23 (toString (q_id q)) = Some (jawaban_benar q)) forty_questions) = 23"
    by code_simp
  then have c40: "spec_correctCount 1 answers_23 db_forty = 23"
    by (simp add: spec_correctCount_def q40)
  have "length (filter (\<lambda>q. [''1'' \<mapsto> ''A''] (toString (q_id q)) = Some (jawaban_benar q))
      eight_questions) = 1"
    by code_simp
  then have c8: "spec_correctCount 1 [''1'' \<mapsto> ''A''] db_eight = 1"
    by (simp add: spec_correctCount_def q8)
  have n40: "spec_totalQuestions 1 db_forty = 40"
    by (simp add: spec_totalQuestions_def q40 l40)
  have n8: "spec_totalQuestions 1 db_eight = 8"
    by (simp add: spec_totalQuestions_def q8 l8)
  have n0: "spec_totalQuestions 99 db_one = 0"
    by (simp add: spec_totalQuestions_def db_one_def question1_def)
  have n1: "spec_totalQuestions 1 db_one = 1"
    by (simp add: spec_totalQuestions_def db_one_def question1_def)
  have c1: "spec_correctCount 1 [''1'' \<mapsto> ''D''] db_one = 1"
    by (simp add: spec_correctCount_def db_one_def question1_def toString_def digits.simps
        digit_char_def)
  have s1: "spec_score 1 [''1'' \<mapsto> ''D''] db_one = 100"
    by (simp add: spec_score_def n1 c1 spec_round_half_up_def)
  have s8: "spec_score 1 [''1'' \<mapsto> ''A''] db_eight = 13"
    by (simp add: spec_score_def n8 c8 spec_round_half_up_def)
  have s40: "spec_score 1 answers_23 db_forty = 58"
    by (simp add: spec_score_def n40 c40 spec_round_half_up_def)
  have f0: "calculateScore 99 Map.empty db_one = 0"
    using calculateScore_round_of_double [of 99 db_one Map.empty] n0 by simp
  have f1: "calculateScore 1 [''1'' \<mapsto> ''D''] db_one = 100"
    using calculateScore_round_of_double [of 1 db_one "[''1'' \<mapsto> ''D'']"] h1 n1 c1
    by (simp add: fl_1_1)
  have f8: "calculateScore 1 [''1'' \<mapsto> ''A''] db_eight = 13"
    using calculateScore_round_of_double [of 1 db_eight "[''1'' \<mapsto> ''A'']"] h8 n8 c8
    by (simp add: fl_1_8)
  have f40: "calculateScore 1 answers_23 db_forty = 57"
    using calculateScore_round_of_double [of 1 db_forty answers_23] h40 n40 c40
    by (simp add: fl_23_40)
  from n0 n1 c1 s1 n8 c8 s8 n40 c40 s40 f0 f1 f8 f40 show ?thesis
    by simp
qed

text \<open>
  Forty questions with the correct choice A, the first 23 answered A and the others not
  answered: \<^verbatim>\<open>calculateScore\<close> gives 57, the exact percentage rounded half up is 58.
\<close>

theorem calculateScore_half_counterexample:
  "calculateScore 1 answers_23 db_forty = 57 \<and> spec_score 1 answers_23 db_forty = 58"
proof -
  have q: "filter (\<lambda>q. q_exam_id q = 1) (questionsTable db_forty) = forty_questions"
    by (simp add: db_forty_def forty_questions_def)
  have l: "length forty_questions = 40"
    by code_simp
  then have ne: "forty_questions \<noteq> []"
    by auto
  have k: "count_correct answers_23 forty_questions 0 = 23"
    by code_simp
  have a: "calculateScore 1 answers_23 db_forty = 57"
    by (simp add: calculateScore_def q k l ne fl_23_40)
  have "length (filter (\<lambda>q. answers_23 (toString (q_id q)) = Some (jawaban_benar q)) forty_questions) = 23"
    by code_simp
  then have "spec_correctCount 1 answers_23 db_forty = 23"
    by (simp add: spec_correctCount_def q)
  moreover have "spec_totalQuestions 1 db_forty = 40"
    by (simp add: spec_totalQuestions_def q l)
  ultimately have "spec_score 1 answers_23 db_forty = 58"
    by (simp add: spec_score_def spec_round_half_up_def)
  with a show ?thesis by simp
qed

section \<open>Properties of the answer handlers\<close>

lemma filter_primary_key:
  "distinct (map a_id xs) \<Longrightarrow> a \<in> set xs \<Longrightarrow> filter (\<lambda>r. a_id r = a_id a) xs = [a]"
proof (induction xs)
  case Nil
  then show ?case by simp
next
  case (Cons x xs)
  show ?case
  proof (cases "x = a")
    case True
    from Cons.prems(1) have "a_id x \<notin> a_id ` set xs" by simp
    then have "\<forall>r \<in> set xs. a_id r \<noteq> a_id x" by (metis imageI)
    with True have "\<forall>r \<in> set xs. a_id r \<noteq> a_id a" by simp
    then have "filter (\<lambda>r. a_id r = a_id a) xs = []" by (simp add: filter_empty_conv)
    with True show ?thesis by simp
  next
    case False
    with Cons.prems have "a \<in> set xs" "a_id x \<noteq> a_id a" by force+
    with Cons show ?thesis by simp
  qed
qed

lemma map_primary_key:
  "distinct (map a_id xs) \<Longrightarrow> a \<in> set xs \<Longrightarrow>
   map (\<lambda>r. if a_id r = a_id a then f r else r) xs = map (\<lambda>r. if r = a then f a else r) xs"
  by (rule map_cong) (auto simp: distinct_map inj_on_def)

lemma filter_map_same_id:
  "(\<And>r. a_id (f r) = a_id r) \<Longrightarrow>
   filter (\<lambda>r. a_id r = i) (map (\<lambda>r. if a_id r = i then f r else r) xs) =
   map f (filter (\<lambda>r. a_id r = i) xs)"
  by (induction xs) auto

text \<open>
  C2. For an answer row of the table (ids are a primary key) that is not submitted,
  \<^verbatim>\<open>submitExam\<close> on its id succeeds. In one \<^verbatim>\<open>update\<close> it sets the answer map to the
  input's map, the score to \<^verbatim>\<open>calculateScore\<close> of the row's exam id and the input's
  map, the submitted flag to true and the submission time to the current time; every
  other row and every other table stay as they were, and the answer returned is the row
  with exactly these four fields changed.
\<close>

theorem submitExam_effect:
  assumes "distinct (map a_id (answersTable db))"
    and "a \<in> set (answersTable db)"
    and "\<not> is_submitted a"
    and "se_id inp = a_id a"
  shows "submitExam now inp db =
    (Inr (a\<lparr> jawaban := se_jawaban inp,
              nilai := calculateScore (a_exam_id a) (se_jawaban inp) db,
              is_submitted := True,
              waktu_submit := now \<rparr>),
     db\<lparr> answersTable :=
          map (\<lambda>r. if r = a
                    then a\<lparr> jawaban := se_jawaban inp,
                            nilai := calculateScore (a_exam_id a) (se_jawaban inp) db,
                            is_submitted := True,
                            waktu_submit := now \<rparr>
                    else r)
            (answersTable db) \<rparr>)"
proof -
  let ?upd = "\<lambda>r::answer. r\<lparr> jawaban := se_jawaban inp,
      nilai := calculateScore (a_exam_id a) (se_jawaban inp) db,
      is_submitted := True, waktu_submit := now \<rparr>"
  have sel: "filter (\<lambda>r. a_id r = a_id a) (answersTable db) = [a]"
    using assms(1,2) by (rule filter_primary_key)
  have ret: "filter (\<lambda>r. a_id r = a_id a)
      (map (\<lambda>r. if a_id r = a_id a then ?upd r else r) (answersTable db)) = [?upd a]"
    by (subst filter_map_same_id) (simp_all add: sel)
  have tab: "map (\<lambda>r. if a_id r = a_id a then ?upd r else r) (answersTable db) =
      map (\<lambda>r. if r = a then ?upd a else r) (answersTable db)"
    using assms(1,2) by (rule map_primary_key)
  show ?thesis
    using assms(3) ret
    by (simp add: submitExam_def assms(4) sel first_returned_def Let_def tab)
qed

theorem submitExam_effect_witness:
  "distinct (map a_id (answersTable db_one)) \<and> answer1 \<in> set (answersTable db_one) \<and>
   \<not> is_submitted answer1 \<and>
   calculateScore 1 [''1'' \<mapsto> ''D''] db_one = 100 \<and>
   fst (submitExam 42 submit1 db_one) =
     Inr (answer1\<lparr> jawaban := [''1'' \<mapsto> ''D''], nilai := 100, is_submitted := True,
                   waktu_submit := 42 \<rparr>) \<and>
   answersTable (snd (submitExam 42 submit1 db_one)) =
     [answer1\<lparr> jawaban := [''1'' \<mapsto> ''D''], nilai := 100, is_submitted := True,
               waktu_submit := 42 \<rparr>]"
proof -
  have s: "calculateScore 1 [''1'' \<mapsto> ''D''] db_one = 100"
    by (simp add: calculateScore_def db_one_def question1_def toString_def digits.simps
        digit_char_def js_divide_def js_times_def to_double_def normalise.simps
        round_ties_even_def
        Math_round_def Let_def)
  have a: "answer1 \<in> set (answersTable db_one)" "distinct (map a_id (answersTable db_one))"
    "\<not> is_submitted answer1" "se_id submit1 = a_id answer1" "a_exam_id answer1 = 1"
    "se_jawaban submit1 = [''1'' \<mapsto> ''D'']"
    by (simp_all add: db_one_def answer1_def submit1_def)
  have t: "answersTable db_one = [answer1]"
    by (simp add: db_one_def)
  show ?thesis
    using submitExam_effect [of db_one answer1 submit1 42] a s by (simp add: t)
qed

text \<open>
  C3. For an answer row of the table whose submitted flag is true, \<^verbatim>\<open>updateProgress\<close> on
  its id throws \<^verbatim>\<open>Cannot update progress for submitted exam\<close> and \<^verbatim>\<open>submitExam\<close> on its
  id throws \<^verbatim>\<open>Exam has already been submitted\<close>, whatever maps they are given, and both
  leave the whole database (so the row's answer map, score, flag and progress map) as it
  was. In particular both calls fail in this way in the database that a successful
  \<^verbatim>\<open>submitExam\<close> leaves behind.
\<close>

theorem submitted_is_final:
  "(distinct (map a_id (answersTable db)) \<and> a \<in> set (answersTable db) \<and> is_submitted a \<longrightarrow>
      updateProgress \<lparr> up_id = a_id a, up_progress_jawaban = p \<rparr> db = (Inl ProgressAfterSubmit, db) \<and>
      submitExam now \<lparr> se_id = a_id a, se_jawaban = j \<rparr> db = (Inl AlreadySubmitted, db)) \<and>
   (submitExam now0 inp db = (Inr r, db') \<longrightarrow>
      updateProgress \<lparr> up_id = se_id inp, up_progress_jawaban = p \<rparr> db' = (Inl ProgressAfterSubmit, db') \<and>
      submitExam now \<lparr> se_id = se_id inp, se_jawaban = j \<rparr> db' = (Inl AlreadySubmitted, db'))"
proof (intro conjI impI)
  assume h: "distinct (map a_id (answersTable db)) \<and> a \<in> set (answersTable db) \<and> is_submitted a"
  then have sel: "filter (\<lambda>r. a_id r = a_id a) (answersTable db) = [a]"
    by (simp add: filter_primary_key)
  from h sel show "updateProgress \<lparr> up_id = a_id a, up_progress_jawaban = p \<rparr> db = (Inl ProgressAfterSubmit, db)"
    by (simp add: updateProgress_def)
  from h sel show "submitExam now \<lparr> se_id = a_id a, se_jawaban = j \<rparr> db = (Inl AlreadySubmitted, db)"
    by (simp add: submitExam_def)
next
  assume s: "submitExam now0 inp db = (Inr r, db')"
  let ?upd = "\<lambda>r::answer. r\<lparr> jawaban := se_jawaban inp,
      nilai := calculateScore (a_exam_id (hd (filter (\<lambda>a. a_id a = se_id inp) (answersTable db)))) (se_jawaban inp) db,
      is_submitted := True, waktu_submit := now0 \<rparr>"
  from s have db': "answersTable db' = map (\<lambda>r. if a_id r = se_id inp then ?upd r else r) (answersTable db)"
    and ne: "filter (\<lambda>a. a_id a = se_id inp) (answersTable db) \<noteq> []"
    by (auto simp: submitExam_def first_returned_def Let_def split: list.splits if_splits)
  have "filter (\<lambda>r. a_id r = se_id inp) (answersTable db') =
      map ?upd (filter (\<lambda>r. a_id r = se_id inp) (answersTable db))"
    unfolding db' by (rule filter_map_same_id) simp
  with ne obtain x xs where sel: "filter (\<lambda>r. a_id r = se_id inp) (answersTable db') = x # xs"
    and sub: "is_submitted x"
    by (cases "filter (\<lambda>r. a_id r = se_id inp) (answersTable db)") auto
  from sel sub show "updateProgress \<lparr> up_id = se_id inp, up_progress_jawaban = p \<rparr> db' = (Inl ProgressAfterSubmit, db')"
    by (simp add: updateProgress_def)
  from sel sub show "submitExam now \<lparr> se_id = se_id inp, se_jawaban = j \<rparr> db' = (Inl AlreadySubmitted, db')"
    by (simp add: submitExam_def)
qed

theorem submitted_is_final_witness:
  "distinct (map a_id (answersTable db_submitted)) \<and>
   answer1\<lparr>is_submitted := True\<rparr> \<in> set (answersTable db_submitted) \<and>
   is_submitted (answer1\<lparr>is_submitted := True\<rparr>) \<and>
   updateProgress \<lparr> up_id = 1, up_progress_jawaban = [''1'' \<mapsto> ''B''] \<rparr> db_submitted
     = (Inl ProgressAfterSubmit, db_submitted) \<and>
   submitExam 50 \<lparr> se_id = 1, se_jawaban = [''1'' \<mapsto> ''B''] \<rparr> db_submitted
     = (Inl AlreadySubmitted, db_submitted) \<and>
   fst (submitExam 42 submit1 db_one) = Inr (fst_answer (submitExam 42 submit1 db_one)) \<and>
   fst (updateProgress \<lparr> up_id = 1, up_progress_jawaban = [''1'' \<mapsto> ''B''] \<rparr>
          (snd (submitExam 42 submit1 db_one))) = Inl ProgressAfterSubmit \<and>
   fst (submitExam 50 \<lparr> se_id = 1, se_jawaban = [''1'' \<mapsto> ''B''] \<rparr>
          (snd (submitExam 42 submit1 db_one))) = Inl AlreadySubmitted"
proof -
  have a: "distinct (map a_id (answersTable db_submitted))"
    "answer1\<lparr>is_submitted := True\<rparr> \<in> set (answersTable db_submitted)"
    "is_submitted (answer1\<lparr>is_submitted := True\<rparr>)"
    "a_id (answer1\<lparr>is_submitted := True\<rparr>) = 1"
    by (simp_all add: db_submitted_def db_one_def answer1_def)
  have f: "fst (submitExam 42 submit1 db_one) = Inr (fst_answer (submitExam 42 submit1 db_one))"
    by (simp add: submitExam_def first_returned_def db_one_def answer1_def submit1_def
        fst_answer_def Let_def)
  then have e: "submitExam 42 submit1 db_one =
      (Inr (fst_answer (submitExam 42 submit1 db_one)), snd (submitExam 42 submit1 db_one))"
    by (simp add: prod_eq_iff)
  have i: "se_id submit1 = 1"
    by (simp add: submit1_def)
  show ?thesis
    using submitted_is_final [where db = db_submitted and a = "answer1\<lparr>is_submitted := True\<rparr>"
        and p = "[''1'' \<mapsto> ''B'']" and now = 50 and j = "[''1'' \<mapsto> ''B'']"]
      submitted_is_final [where now = 50 and j = "[''1'' \<mapsto> ''B'']" and now0 = 42
        and inp = submit1 and db = db_one and r = "fst_answer (submitExam 42 submit1 db_one)"
        and db' = "snd (submitExam 42 submit1 db_one)" and p = "[''1'' \<mapsto> ''B'']"]
      a e f i
    by simp
qed

lemma createAnswer_out_of_range:
  "\<not> int4 (ca_user_id inp) \<or> \<not> int4 (ca_exam_id inp) \<Longrightarrow>
   createAnswer now db_now inp db = (Inl IntegerOutOfRange, db)"
  by (auto simp: createAnswer_def)

lemma createAnswer_first_failure:
  assumes "int4 (ca_user_id inp)" "int4 (ca_exam_id inp)"
  shows "createAnswer now db_now inp db =
    (if getUserAnswer (ca_exam_id inp) (ca_user_id inp) db \<noteq> None then (Inl DuplicateAnswer, db)
     else if ca_user_id inp \<notin> set (map u_id (usersTable db)) then (Inl UserNotFound, db)
     else if ca_exam_id inp \<notin> set (map e_id (examsTable db)) then (Inl ExamNotFound, db)
     else (Inr \<lparr> a_id = answers_seq db, a_exam_id = ca_exam_id inp, a_user_id = ca_user_id inp,
                 jawaban = ca_jawaban inp, nilai = 0, waktu_submit = now,
                 is_submitted = ca_is_submitted inp, progress_jawaban = ca_progress_jawaban inp,
                 a_created_at = db_now \<rparr>,
           db\<lparr> answersTable := answersTable db @
                  [\<lparr> a_id = answers_seq db, a_exam_id = ca_exam_id inp, a_user_id = ca_user_id inp,
                     jawaban = ca_jawaban inp, nilai = 0, waktu_submit = now,
                     is_submitted = ca_is_submitted inp, progress_jawaban = ca_progress_jawaban inp,
                     a_created_at = db_now \<rparr>],
                answers_seq := answers_seq db + 1 \<rparr>))"
proof -
  have dup: "(getUserAnswer (ca_exam_id inp) (ca_user_id inp) db = None) =
      (filter (\<lambda>a. a_user_id a = ca_user_id inp \<and> a_exam_id a = ca_exam_id inp) (answersTable db) = [])"
    by (auto simp: getUserAnswer_def find_None_iff filter_empty_conv)
  have usr: "(ca_user_id inp \<in> set (map u_id (usersTable db))) =
      (filter (\<lambda>u. u_id u = ca_user_id inp) (usersTable db) \<noteq> [])"
    by (simp add: filter_empty_conv image_iff) metis
  have exm: "(ca_exam_id inp \<in> set (map e_id (examsTable db))) =
      (filter (\<lambda>e. e_id e = ca_exam_id inp) (examsTable db) \<noteq> [])"
    by (simp add: filter_empty_conv image_iff) metis
  show ?thesis
    unfolding dup usr exm using assms by (simp add: createAnswer_def Let_def)
qed

lemma createAnswer_keeps_pairs:
  "one_answer_per_pair db \<Longrightarrow> one_answer_per_pair (snd (createAnswer now db_now inp db))"
  by (auto simp: one_answer_per_pair_def createAnswer_def Let_def filter_empty_conv)

lemma create_calls_keeps_pairs:
  "one_answer_per_pair db \<Longrightarrow> one_answer_per_pair (create_calls calls db)"
  by (induction calls arbitrary: db) (auto simp: createAnswer_keeps_pairs)

text \<open>
  C4. For ids of the columns' range, \<^verbatim>\<open>createAnswer\<close> has three preconditions, each with
  its error. When the exam is the one thing missing it throws \<^verbatim>\<open>Exam not found\<close>; when
  the user is the one thing missing it throws \<^verbatim>\<open>User not found\<close>; when an answer of the
  pair exists (and so do the exam and the user) it throws the duplicate-answer error.
  Whenever a precondition fails the call throws the error of a precondition that fails
  and leaves the database as it was, so no answer row is created. When all three hold it
  appends one row, with score 0 and with the submitted flag the input asks for, and
  returns it. So a database with at most one answer for each pair of exam and user still
  has at most one after any sequence of \<^verbatim>\<open>createAnswer\<close> calls.
\<close>

theorem createAnswer_preconditions:
  "(int4 (ca_exam_id inp) \<and> int4 (ca_user_id inp) \<longrightarrow>
     (ca_exam_id inp \<notin> set (map e_id (examsTable db)) \<and>
      ca_user_id inp \<in> set (map u_id (usersTable db)) \<and>
      getUserAnswer (ca_exam_id inp) (ca_user_id inp) db = None \<longrightarrow>
        createAnswer now db_now inp db = (Inl ExamNotFound, db)) \<and>
     (ca_user_id inp \<notin> set (map u_id (usersTable db)) \<and>
      ca_exam_id inp \<in> set (map e_id (examsTable db)) \<and>
      getUserAnswer (ca_exam_id inp) (ca_user_id inp) db = None \<longrightarrow>
        createAnswer now db_now inp db = (Inl UserNotFound, db)) \<and>
     (getUserAnswer (ca_exam_id inp) (ca_user_id inp) db \<noteq> None \<and>
      ca_exam_id inp \<in> set (map e_id (examsTable db)) \<and>
      ca_user_id inp \<in> set (map u_id (usersTable db)) \<longrightarrow>
        createAnswer now db_now inp db = (Inl DuplicateAnswer, db)) \<and>
     (ca_exam_id inp \<notin> set (map e_id (examsTable db)) \<or>
      ca_user_id inp \<notin> set (map u_id (usersTable db)) \<or>
      getUserAnswer (ca_exam_id inp) (ca_user_id inp) db \<noteq> None \<longrightarrow>
        snd (createAnswer now db_now inp db) = db \<and>
        (fst (createAnswer now db_now inp db) = Inl ExamNotFound \<and>
           ca_exam_id inp \<notin> set (map e_id (examsTable db)) \<or>
         fst (createAnswer now db_now inp db) = Inl UserNotFound \<and>
           ca_user_id inp \<notin> set (map u_id (usersTable db)) \<or>
         fst (createAnswer now db_now inp db) = Inl DuplicateAnswer \<and>
           getUserAnswer (ca_exam_id inp) (ca_user_id inp) db \<noteq> None)) \<and>
     (ca_exam_id inp \<in> set (map e_id (examsTable db)) \<and>
      ca_user_id inp \<in> set (map u_id (usersTable db)) \<and>
      getUserAnswer (ca_exam_id inp) (ca_user_id inp) db = None \<longrightarrow>
        (\<exists>row. createAnswer now db_now inp db =
                  (Inr row, db\<lparr> answersTable := answersTable db @ [row],
                                 answers_seq := answers_seq db + 1 \<rparr>) \<and>
               a_exam_id row = ca_exam_id inp \<and> a_user_id row = ca_user_id inp \<and>
               nilai row = 0 \<and> is_submitted row = ca_is_submitted inp))) \<and>
   (one_answer_per_pair db \<longrightarrow> one_answer_per_pair (create_calls calls db))"
proof (intro conjI impI)
  assume "one_answer_per_pair db"
  then show "one_answer_per_pair (create_calls calls db)"
    by (rule create_calls_keeps_pairs)
next
  assume "int4 (ca_exam_id inp) \<and> int4 (ca_user_id inp)"
  then have f: "createAnswer now db_now inp db =
    (if getUserAnswer (ca_exam_id inp) (ca_user_id inp) db \<noteq> None then (Inl DuplicateAnswer, db)
     else if ca_user_id inp \<notin> set (map u_id (usersTable db)) then (Inl UserNotFound, db)
     else if ca_exam_id inp \<notin> set (map e_id (examsTable db)) then (Inl ExamNotFound, db)
     else (Inr \<lparr> a_id = answers_seq db, a_exam_id = ca_exam_id inp, a_user_id = ca_user_id inp,
                 jawaban = ca_jawaban inp, nilai = 0, waktu_submit = now,
                 is_submitted = ca_is_submitted inp, progress_jawaban = ca_progress_jawaban inp,
                 a_created_at = db_now \<rparr>,
           db\<lparr> answersTable := answersTable db @
                  [\<lparr> a_id = answers_seq db, a_exam_id = ca_exam_id inp, a_user_id = ca_user_id inp,
                     jawaban = ca_jawaban inp, nilai = 0, waktu_submit = now,
                     is_submitted = ca_is_submitted inp, progress_jawaban = ca_progress_jawaban inp,
                     a_created_at = db_now \<rparr>],
                answers_seq := answers_seq db + 1 \<rparr>))"
    by (simp add: createAnswer_first_failure)
  {
    assume "ca_exam_id inp \<notin> set (map e_id (examsTable db)) \<and>
      ca_user_id inp \<in> set (map u_id (usersTable db)) \<and>
      getUserAnswer (ca_exam_id inp) (ca_user_id inp) db = None"
    then show "createAnswer now db_now inp db = (Inl ExamNotFound, db)"
      by (simp add: f)
  }
  {
    assume "ca_user_id inp \<notin> set (map u_id (usersTable db)) \<and>
      ca_exam_id inp \<in> set (map e_id (examsTable db)) \<and>
      getUserAnswer (ca_exam_id inp) (ca_user_id inp) db = None"
    then show "createAnswer now db_now inp db = (Inl UserNotFound, db)"
      by (simp add: f)
  }
  {
    assume "getUserAnswer (ca_exam_id inp) (ca_user_id inp) db \<noteq> None \<and>
      ca_exam_id inp \<in> set (map e_id (examsTable db)) \<and>
      ca_user_id inp \<in> set (map u_id (usersTable db))"
    then show "createAnswer now db_now inp db = (Inl DuplicateAnswer, db)"
      by (simp add: f)
  }
  {
    assume v: "ca_exam_id inp \<notin> set (map e_id (examsTable db)) \<or>
      ca_user_id inp \<notin> set (map u_id (usersTable db)) \<or>
      getUserAnswer (ca_exam_id inp) (ca_user_id inp) db \<noteq> None"
    then show "snd (createAnswer now db_now inp db) = db"
      unfolding f by auto
    from v show "fst (createAnswer now db_now inp db) = Inl ExamNotFound \<and>
           ca_exam_id inp \<notin> set (map e_id (examsTable db)) \<or>
         fst (createAnswer now db_now inp db) = Inl UserNotFound \<and>
           ca_user_id inp \<notin> set (map u_id (usersTable db)) \<or>
         fst (createAnswer now db_now inp db) = Inl DuplicateAnswer \<and>
           getUserAnswer (ca_exam_id inp) (ca_user_id inp) db \<noteq> None"
      unfolding f by auto
  }
  {
    assume "ca_exam_id inp \<in> set (map e_id (examsTable db)) \<and>
      ca_user_id inp \<in> set (map u_id (usersTable db)) \<and>
      getUserAnswer (ca_exam_id inp) (ca_user_id inp) db = None"
    then show "\<exists>row. createAnswer now db_now inp db =
                  (Inr row, db\<lparr> answersTable := answersTable db @ [row],
                                 answers_seq := answers_seq db + 1 \<rparr>) \<and>
               a_exam_id row = ca_exam_id inp \<and> a_user_id row = ca_user_id inp \<and>
               nilai row = 0 \<and> is_submitted row = ca_is_submitted inp"
      by (simp add: f)
  }
qed

theorem createAnswer_preconditions_witness:
  "int4 1 \<and> int4 99 \<and>
   createAnswer 5 6 (create_unknown\<lparr>ca_user_id := 1\<rparr>) db_one = (Inl ExamNotFound, db_one) \<and>
   createAnswer 5 6 (create_unknown\<lparr>ca_exam_id := 1\<rparr>) db_one = (Inl UserNotFound, db_one) \<and>
   createAnswer 5 6 create_first db_one = (Inl DuplicateAnswer, db_one) \<and>
   snd (createAnswer 5 6 create_unknown db_one) = db_one \<and>
   createAnswer 5 6 create_first db_no_answers =
     (Inr first_row, db_no_answers\<lparr> answersTable := [first_row], answers_seq := 3 \<rparr>) \<and>
   nilai first_row = 0 \<and> is_submitted first_row = False \<and>
   fst (createAnswer 5 6 (create_first\<lparr>ca_is_submitted := True\<rparr>) db_no_answers) =
     Inr (first_row\<lparr>is_submitted := True\<rparr>) \<and>
   one_answer_per_pair db_no_answers \<and>
   one_answer_per_pair (create_calls [(5, 6, create_first), (7, 8, create_first)] db_no_answers) \<and>
   answersTable (create_calls [(5, 6, create_first), (7, 8, create_first)] db_no_answers) =
     [first_row]"
proof -
  have r: "int4 1" "int4 99"
    by (simp_all add: int4_def)
  have g: "getUserAnswer 1 1 db_one = Some answer1" "getUserAnswer 99 99 db_one = None"
    "getUserAnswer 99 1 db_one = None" "getUserAnswer 1 99 db_one = None"
    "getUserAnswer 1 1 db_no_answers = None"
    by (simp_all add: getUserAnswer_def db_one_def db_no_answers_def answer1_def)
  have m: "set (map u_id (usersTable db_one)) = {1}" "set (map e_id (examsTable db_one)) = {1}"
    "set (map u_id (usersTable db_no_answers)) = {1}"
    "set (map e_id (examsTable db_no_answers)) = {1}"
    by (simp_all add: db_one_def db_no_answers_def user1_def exam1_def)
  have i: "ca_exam_id create_first = 1" "ca_user_id create_first = 1"
    "ca_exam_id create_unknown = 99" "ca_user_id create_unknown = 99"
    "ca_is_submitted create_first = False"
    by (simp_all add: create_first_def create_unknown_def)
  have p: "one_answer_per_pair db_no_answers"
    by (simp add: one_answer_per_pair_def db_no_answers_def)
  have c1: "createAnswer 5 6 create_first db_no_answers =
     (Inr first_row, db_no_answers\<lparr> answersTable := [first_row], answers_seq := 3 \<rparr>)"
    by (simp add: createAnswer_def create_first_def first_row_def db_no_answers_def db_one_def
        user1_def exam1_def int4_def Let_def)
  have c2: "fst (createAnswer 5 6 (create_first\<lparr>ca_is_submitted := True\<rparr>) db_no_answers) =
     Inr (first_row\<lparr>is_submitted := True\<rparr>)"
    by (simp add: createAnswer_def create_first_def first_row_def db_no_answers_def db_one_def
        user1_def exam1_def int4_def Let_def)
  have c3: "createAnswer 7 8 create_first
      (db_no_answers\<lparr> answersTable := [first_row], answers_seq := 3 \<rparr>) =
      (Inl DuplicateAnswer, db_no_answers\<lparr> answersTable := [first_row], answers_seq := 3 \<rparr>)"
    by (simp add: createAnswer_def create_first_def first_row_def db_no_answers_def db_one_def
        int4_def)
  have v: "nilai first_row = 0" "is_submitted first_row = False"
    by (simp_all add: first_row_def)
  have f1: "createAnswer 5 6 (create_unknown\<lparr>ca_user_id := 1\<rparr>) db_one = (Inl ExamNotFound, db_one)"
    using createAnswer_preconditions [where inp = "create_unknown\<lparr>ca_user_id := 1\<rparr>"
        and db = db_one and now = 5 and db_now = 6 and calls = "[]"] r g m i
    by simp
  have f2: "createAnswer 5 6 (create_unknown\<lparr>ca_exam_id := 1\<rparr>) db_one = (Inl UserNotFound, db_one)"
    using createAnswer_preconditions [where inp = "create_unknown\<lparr>ca_exam_id := 1\<rparr>"
        and db = db_one and now = 5 and db_now = 6 and calls = "[]"] r g m i
    by simp
  have f3: "createAnswer 5 6 create_first db_one = (Inl DuplicateAnswer, db_one)"
    using createAnswer_preconditions [where inp = create_first and db = db_one and now = 5
        and db_now = 6 and calls = "[]"] r g m i
    by simp
  have f4: "snd (createAnswer 5 6 create_unknown db_one) = db_one"
    using createAnswer_preconditions [where inp = create_unknown and db = db_one and now = 5
        and db_now = 6 and calls = "[]"] r g m i
    by simp
  have f5: "one_answer_per_pair (create_calls [(5, 6, create_first), (7, 8, create_first)] db_no_answers)"
    using createAnswer_preconditions [where db = db_no_answers
        and calls = "[(5, 6, create_first), (7, 8, create_first)]"] p
    by simp
  have f6: "answersTable (create_calls [(5, 6, create_first), (7, 8, create_first)] db_no_answers) =
     [first_row]"
    by (simp add: c1 c3)
  from r f1 f2 f3 f4 c1 c2 v p f5 f6 show ?thesis
    by simp
qed

section \<open>Properties of the question handlers\<close>

text \<open>
  What \<^verbatim>\<open>deleteQuestion\<close> does to the answers (ids are a primary key): every answer of
  the question's exam becomes \<open>without_reference\<close> of itself, every other answer stays,
  and the question row goes. \<open>without_reference\<close> keeps the ids, the score, the submitted
  flag and every other key; it removes the question's key when the value under it is a
  non-empty string, and keeps it when the value is the empty string.
\<close>

lemma same_id_same_row:
  "distinct (map a_id xs) \<Longrightarrow> x \<in> set xs \<Longrightarrow> y \<in> set xs \<Longrightarrow> a_id x = a_id y \<Longrightarrow> x = y"
  by (auto simp: distinct_map inj_on_def)

lemma cleanup_answer_table:
  assumes "distinct (map a_id xs)" "a \<in> set xs"
  shows "cleanup_answer i a (db\<lparr> answersTable := map (\<lambda>x. if x \<in> A then without_reference i x else x) xs \<rparr>) =
         db\<lparr> answersTable := map (\<lambda>x. if x \<in> insert a A then without_reference i x else x) xs \<rparr>"
proof -
  have "map (\<lambda>r. if a_id r = a_id a
                   then r\<lparr> jawaban := remove_reference (toString i) (jawaban a),
                           progress_jawaban := remove_reference_opt (toString i) (progress_jawaban a) \<rparr>
                   else r)
          (map (\<lambda>x. if x \<in> A then without_reference i x else x) xs) =
        map (\<lambda>x. if x \<in> insert a A then without_reference i x else x) xs"
    unfolding map_map comp_def
  proof (rule map_cong [OF refl])
    fix x assume x: "x \<in> set xs"
    show "(if a_id (if x \<in> A then without_reference i x else x) = a_id a
           then (if x \<in> A then without_reference i x else x)
                  \<lparr> jawaban := remove_reference (toString i) (jawaban a),
                    progress_jawaban := remove_reference_opt (toString i) (progress_jawaban a) \<rparr>
           else (if x \<in> A then without_reference i x else x)) =
          (if x \<in> insert a A then without_reference i x else x)"
    proof (cases "x = a")
      case True
      then show ?thesis by (simp add: without_reference_def)
    next
      case False
      with same_id_same_row [OF assms(1) x assms(2)] have "a_id x \<noteq> a_id a" by blast
      with False show ?thesis by (simp add: without_reference_def)
    qed
  qed
  then show ?thesis
    by (simp add: cleanup_answer_def Let_def)
qed

lemma cleanup_answers_table:
  assumes "distinct (map a_id xs)" "set sel \<subseteq> set xs"
  shows "cleanup_answers i sel (db\<lparr> answersTable := map (\<lambda>x. if x \<in> A then without_reference i x else x) xs \<rparr>) =
         db\<lparr> answersTable := map (\<lambda>x. if x \<in> A \<union> set sel then without_reference i x else x) xs \<rparr>"
  using assms(2)
proof (induction sel arbitrary: A)
  case Nil
  then show ?case by simp
next
  case (Cons a sel)
  then have "a \<in> set xs" "set sel \<subseteq> set xs" by auto
  with Cons.IH [of "insert a A"] assms(1) show ?case
    by (simp add: cleanup_answer_table)
qed

lemma deleteQuestion_effect:
  assumes "distinct (map a_id (answersTable db))" "getQuestionById i db = Some q"
  shows "deleteQuestion i db =
    (Inr (),
     db\<lparr> answersTable :=
            map (\<lambda>a. if a_exam_id a = q_exam_id q then without_reference i a else a) (answersTable db),
          questionsTable := filter (\<lambda>x. q_id x \<noteq> i) (questionsTable db) \<rparr>)"
proof -
  let ?xs = "answersTable db"
  let ?as = "filter (\<lambda>a. a_exam_id a = q_exam_id q) ?xs"
  have "db = db\<lparr> answersTable := map (\<lambda>x. if x \<in> {} then without_reference i x else x) ?xs \<rparr>"
    by simp
  then have "cleanup_answers i ?as db =
      db\<lparr> answersTable := map (\<lambda>x. if x \<in> {} \<union> set ?as then without_reference i x else x) ?xs \<rparr>"
    using cleanup_answers_table [OF assms(1), where sel = ?as and i = i and db = db and A = "{}"]
    by simp
  moreover have "map (\<lambda>x. if x \<in> {} \<union> set ?as then without_reference i x else x) ?xs =
      map (\<lambda>a. if a_exam_id a = q_exam_id q then without_reference i a else a) ?xs"
    by (rule map_cong) auto
  ultimately show ?thesis
    by (simp add: deleteQuestion_def assms(2) Let_def)
qed

lemma without_reference_fields:
  "a_id (without_reference i a) = a_id a"
  "a_exam_id (without_reference i a) = a_exam_id a"
  "a_user_id (without_reference i a) = a_user_id a"
  "nilai (without_reference i a) = nilai a"
  "is_submitted (without_reference i a) = is_submitted a"
  "waktu_submit (without_reference i a) = waktu_submit a"
  by (simp_all add: without_reference_def)

lemma without_reference_other_keys:
  "k \<noteq> toString i \<Longrightarrow> jawaban (without_reference i a) k = jawaban a k"
  "k \<noteq> toString i \<Longrightarrow> progress_jawaban a = Some p \<Longrightarrow>
     \<exists>p'. progress_jawaban (without_reference i a) = Some p' \<and> p' k = p k"
  by (simp_all add: without_reference_def remove_reference_def remove_reference_opt_def)

lemma without_reference_truthy:
  "truthy (jawaban a (toString i)) \<Longrightarrow> jawaban (without_reference i a) (toString i) = None"
  by (simp add: without_reference_def remove_reference_def)

lemma without_reference_blank:
  "jawaban a (toString i) = Some [] \<Longrightarrow> jawaban (without_reference i a) (toString i) = Some []"
  by (simp add: without_reference_def remove_reference_def)

text \<open>
  C5. \<^verbatim>\<open>deleteQuestion\<close> tests \<^verbatim>\<open>jawaban[id.toString()]\<close> for truth before it deletes the
  key, so a key whose stored value is the empty string stays. Question 1 is deleted while
  an answer of its exam holds the empty string under the key \<^verbatim>\<open>1\<close> in both maps: the
  call succeeds and the key is still in both maps afterwards. With the value \<^verbatim>\<open>D\<close> under
  the key, the same call removes it from both.
\<close>

theorem deleteQuestion_keeps_blank_answer:
  "getQuestionById 1 db_blank = Some question1 \<and>
   fst (deleteQuestion 1 db_blank) = Inr () \<and>
   map (stored_answer ''1'') (answersTable db_blank) = [Some []] \<and>
   map (stored_progress ''1'') (answersTable db_blank) = [Some []] \<and>
   map (stored_answer ''1'') (answersTable (snd (deleteQuestion 1 db_blank))) = [Some []] \<and>
   map (stored_progress ''1'') (answersTable (snd (deleteQuestion 1 db_blank))) = [Some []] \<and>
   map (stored_answer ''1'') (answersTable (snd (deleteQuestion 1 db_filled))) = [None] \<and>
   map (stored_progress ''1'') (answersTable (snd (deleteQuestion 1 db_filled))) = [None]"
  by (simp add: deleteQuestion_def getQuestionById_def db_blank_def db_filled_def db_one_def
      question1_def answer_blank_def answer_filled_def answer1_def cleanup_answer_def
      remove_reference_def remove_reference_opt_def toString_def digits.simps digit_char_def
      stored_answer_def stored_progress_def Let_def)

text \<open>
  C9. The rows that \<^verbatim>\<open>getQuestionsForParticipant\<close> returns have no field for the correct
  choice, and what it returns does not depend on the correct choices stored: two
  databases whose question tables are equal once every \<^verbatim>\<open>jawaban_benar\<close> is blanked give
  the same sequence, for every exam id.
\<close>

theorem participant_view_hides_key:
  assumes "map (\<lambda>q. q\<lparr> jawaban_benar := [] \<rparr>) (questionsTable db1) =
           map (\<lambda>q. q\<lparr> jawaban_benar := [] \<rparr>) (questionsTable db2)"
  shows "getQuestionsForParticipant examId db1 = getQuestionsForParticipant examId db2"
proof -
  let ?erase = "\<lambda>q::question. q\<lparr> jawaban_benar := [] \<rparr>"
  let ?row = "\<lambda>q. \<lparr> pq_id = q_id q, pq_exam_id = q_exam_id q, pq_soal = soal q,
                pq_pilihan = pilihan q, pq_created_at = q_created_at q \<rparr>"
  have "getQuestionsForParticipant examId db =
      map ?row (filter (\<lambda>q. q_exam_id q = examId) (map ?erase (questionsTable db)))" for db
    by (simp add: getQuestionsForParticipant_def filter_map comp_def)
  with assms show ?thesis by simp
qed

theorem participant_view_hides_key_witness:
  "questionsTable db_one \<noteq> questionsTable db_other_key \<and>
   map (\<lambda>q. q\<lparr> jawaban_benar := [] \<rparr>) (questionsTable db_one) =
     map (\<lambda>q. q\<lparr> jawaban_benar := [] \<rparr>) (questionsTable db_other_key) \<and>
   getQuestionsForParticipant 1 db_one = getQuestionsForParticipant 1 db_other_key \<and>
   getQuestionsForParticipant 1 db_one =
     [\<lparr> pq_id = 1, pq_exam_id = 1, pq_soal = ''What is 2 + 2?'',
        pq_pilihan = [''1'', ''2'', ''3'', ''4''], pq_created_at = 0 \<rparr>]"
proof -
  have e: "map (\<lambda>q. q\<lparr> jawaban_benar := [] \<rparr>) (questionsTable db_one) =
      map (\<lambda>q. q\<lparr> jawaban_benar := [] \<rparr>) (questionsTable db_other_key)"
    by (simp add: db_one_def db_other_key_def question1_def)
  have d: "questionsTable db_one \<noteq> questionsTable db_other_key"
    by (simp add: db_one_def db_other_key_def question1_def)
  have v: "getQuestionsForParticipant 1 db_one =
     [\<lparr> pq_id = 1, pq_exam_id = 1, pq_soal = ''What is 2 + 2?'',
        pq_pilihan = [''1'', ''2'', ''3'', ''4''], pq_created_at = 0 \<rparr>]"
    by (simp add: getQuestionsForParticipant_def db_one_def question1_def)
  from participant_view_hides_key [OF e, of 1] e d v show ?thesis
    by simp
qed

section \<open>Properties of the user and authentication handlers\<close>

lemma base64_char_no_colon: "n < 64 \<Longrightarrow> CHR '':'' \<noteq> base64_char n"
proof -
  assume n: "n < 64"
  have "length base64_alphabet = 64"
    by (simp add: base64_alphabet_def)
  with n have "base64_alphabet ! n \<in> set base64_alphabet"
    by (metis nth_mem)
  moreover have "CHR '':'' \<notin> set base64_alphabet"
    by (simp add: base64_alphabet_def)
  ultimately show ?thesis
    unfolding base64_char_def by metis
qed

lemma base64_no_colon:
  "\<forall>b \<in> set bs. b < 256 \<Longrightarrow> CHR '':'' \<notin> set (base64 bs)"
proof (induction bs rule: base64.induct)
  case 1
  then show ?case by simp
next
  case (2 a)
  then have "a div 4 < 64" "a mod 4 * 16 < 64" by auto
  then show ?case by (simp add: base64_char_no_colon)
next
  case (3 a b)
  then have "a div 4 < 64" "a mod 4 * 16 + b div 16 < 64" "b mod 16 * 4 < 64" by auto
  then show ?case by (simp add: base64_char_no_colon)
next
  case (4 a b c rest)
  then have "a div 4 < 64" "a mod 4 * 16 + b div 16 < 64" "b mod 16 * 4 + c div 64 < 64"
    "c mod 64 < 64" by auto
  with 4 show ?case by (simp add: base64_char_no_colon)
qed

lemma users_hashPassword_no_colon: "CHR '':'' \<notin> set (users_hashPassword plain)"
proof -
  have "of_char c < (256::nat)" for c
    by (metis of_char_mod_256 mod_less_divisor zero_less_numeral)
  then show ?thesis
    unfolding users_hashPassword_def by (intro base64_no_colon) auto
qed

lemma split_without_separator: "c \<notin> set s \<Longrightarrow> split c s = [s]"
  by (induction s) auto

lemma verifyPassword_base64: "\<not> verifyPassword pbkdf2 plain (users_hashPassword stored)"
  by (simp add: verifyPassword_def split_without_separator users_hashPassword_no_colon)

text \<open>
  C10. A user stored by \<^verbatim>\<open>createUser\<close> cannot log in. The stored password is the base64
  text of the plain one, which has no colon; \<^verbatim>\<open>verifyPassword\<close> splits the stored value
  at colons and returns false unless there are exactly two parts. So \<^verbatim>\<open>loginUser\<close> with
  the email of the created user and any password returns \<^verbatim>\<open>null\<close> in the database that
  \<^verbatim>\<open>createUser\<close> leaves behind, and in every database (emails are unique) that holds a
  user whose stored password was made by the \<^verbatim>\<open>hashPassword\<close> of the user handlers;
  this for every key derivation function.
\<close>

theorem created_user_cannot_login:
  "(createUser db_now inp db = (Inr u, db') \<longrightarrow>
      loginUser pbkdf2 \<lparr> li_email = cu_email inp, li_password = attempt \<rparr> db' = None) \<and>
   (distinct (map email (usersTable db)) \<and> u \<in> set (usersTable db) \<and>
    password u = users_hashPassword plain \<longrightarrow>
      loginUser pbkdf2 \<lparr> li_email = email u, li_password = attempt \<rparr> db = None)"
proof (intro conjI impI)
  assume "createUser db_now inp db = (Inr u, db')"
  then show "loginUser pbkdf2 \<lparr> li_email = cu_email inp, li_password = attempt \<rparr> db' = None"
    by (auto simp: createUser_def loginUser_def Let_def verifyPassword_base64 split: if_splits)
next
  assume h: "distinct (map email (usersTable db)) \<and> u \<in> set (usersTable db) \<and>
    password u = users_hashPassword plain"
  have "distinct (map email xs) \<Longrightarrow> u \<in> set xs \<Longrightarrow> filter (\<lambda>r. email r = email u) xs = [u]" for xs
  proof (induction xs)
    case Nil
    then show ?case by simp
  next
    case (Cons x xs)
    show ?case
    proof (cases "x = u")
      case True
      from Cons.prems(1) have "email x \<notin> email ` set xs" by simp
      then have "\<forall>r \<in> set xs. email r \<noteq> email x" by (metis imageI)
      with True have "filter (\<lambda>r. email r = email u) xs = []" by (simp add: filter_empty_conv)
      with True show ?thesis by simp
    next
      case False
      with Cons.prems have "u \<in> set xs" "email x \<noteq> email u" by force+
      with Cons show ?thesis by simp
    qed
  qed
  with h have "filter (\<lambda>r. email r = email u) (usersTable db) = [u]" by simp
  with h show "loginUser pbkdf2 \<lparr> li_email = email u, li_password = attempt \<rparr> db = None"
    by (simp add: loginUser_def verifyPassword_base64)
qed

theorem created_user_cannot_login_witness:
  "fst (createUser 7 new_user db_one) = Inr new_user_row \<and>
   password new_user_row = ''cGFzc3dvcmQxMjM='' \<and>
   loginUser kdf_example \<lparr> li_email = ''peserta@test.com'', li_password = ''password123'' \<rparr>
     (snd (createUser 7 new_user db_one)) = None \<and>
   distinct (map email (usersTable (snd (createUser 7 new_user db_one)))) \<and>
   new_user_row \<in> set (usersTable (snd (createUser 7 new_user db_one)))"
proof -
  have c: "createUser 7 new_user db_one =
      (Inr new_user_row, db_one\<lparr> usersTable := [user1, new_user_row], users_seq := 3 \<rparr>)"
    by (simp add: createUser_def new_user_def new_user_row_def db_one_def user1_def
        users_hashPassword_def base64_char_def base64_alphabet_def Let_def)
  have p: "password new_user_row = ''cGFzc3dvcmQxMjM=''" "cu_email new_user = ''peserta@test.com''"
    by (simp_all add: new_user_row_def new_user_def)
  have d: "distinct (map email [user1, new_user_row])"
    by (simp add: user1_def new_user_row_def)
  from created_user_cannot_login [of 7 new_user db_one new_user_row
      "db_one\<lparr> usersTable := [user1, new_user_row], users_seq := 3 \<rparr>" kdf_example "''password123''"]
    c p d
  show ?thesis by simp
qed

end
